theory Spec2Isabelle
  imports Complex_Main
begin

section \<open>The VR bounding-box head of VPDet: data model\<close>

text \<open>
  The development follows \<^verbatim>\<open>mmdet/models/roi_heads/bbox_heads/vr_bbox_head.py\<close>
  (class \<^verbatim>\<open>VRBBoxHead\<close>). Tensor entries are real numbers (labels are integers);
  every exception of the Python code is a value \<open>Inl e\<close>.
\<close>

subsection \<open>Errors\<close>

datatype error = AssertionError | IndexError | ValueError | RuntimeError

definition bind_err :: "error + 'a \<Rightarrow> ('a \<Rightarrow> error + 'b) \<Rightarrow> error + 'b" where
  "bind_err m f = (case m of Inl e \<Rightarrow> Inl e | Inr x \<Rightarrow> f x)"

subsection \<open>Tensors\<close>

text \<open>
  A contiguous tensor: its shape and its entries in row-major order. The entries fill the
  shape when \<open>length (data t) = prod_list (shape t)\<close>.
\<close>

record 'a tensor =
  shape :: "nat list"
  data :: "'a list"

definition wf_tensor :: "'a tensor \<Rightarrow> bool" where
  "wf_tensor t = (length (data t) = prod_list (shape t))"

definition numel :: "'a tensor \<Rightarrow> nat" where
  "numel t = prod_list (shape t)"

text \<open>\<^verbatim>\<open>t.size(d)\<close> raises IndexError when the tensor has no dimension \<open>d\<close>.\<close>

definition tsize :: "'a tensor \<Rightarrow> nat \<Rightarrow> error + nat" where
  "tsize t d = (if d < length (shape t) then Inr (shape t ! d) else Inl IndexError)"

definition new_full :: "nat list \<Rightarrow> 'a \<Rightarrow> 'a tensor" where
  "new_full shp v = \<lparr>shape = shp, data = replicate (prod_list shp) v\<rparr>"

definition new_zeros :: "nat list \<Rightarrow> real tensor" where
  "new_zeros shp = new_full shp 0"

text \<open>The number of entries of one row (one index of the first dimension).\<close>

definition row_len :: "'a tensor \<Rightarrow> nat" where
  "row_len t = prod_list (tl (shape t))"

definition row :: "'a tensor \<Rightarrow> nat \<Rightarrow> 'a list" where
  "row t i = take (row_len t) (drop (i * row_len t) (data t))"

text \<open>
  Broadcasting the entries \<open>xs\<close> of a value of shape \<open>vs\<close> to the shape \<open>ts\<close> of the
  same rank: a dimension is kept when the sizes agree and repeated when the value has
  size 1 there; anything else does not broadcast. Entries that do not fill \<open>vs\<close> are
  refused as well.
\<close>

fun expand :: "nat list \<Rightarrow> nat list \<Rightarrow> 'a list \<Rightarrow> 'a list option" where
  "expand [] [] xs = (case xs of [x] \<Rightarrow> Some [x] | _ \<Rightarrow> None)"
| "expand (v # vs) (t # ts) xs =
     (if v = t then
        map_option concat
          (those (map (\<lambda>i. expand vs ts (take (prod_list vs) (drop (i * prod_list vs) xs)))
                      [0..<t]))
      else if v = 1 then map_option (\<lambda>ys. concat (replicate t ys)) (expand vs ts xs)
      else None)"
| "expand _ _ _ = None"

text \<open>
  The value of an indexed assignment \<^verbatim>\<open>dst[...] = src\<close>: torch drops the leading
  dimensions of size 1 of \<open>src\<close>, pads its shape on the left with 1s up to the rank of
  the destination, and expands it; a value that does not fit raises RuntimeError.
\<close>

definition broadcast_to :: "'a tensor \<Rightarrow> nat list \<Rightarrow> error + 'a list" where
  "broadcast_to v tgt =
     (let vs = dropWhile (\<lambda>d. d = 1) (shape v) in
      if length tgt < length vs then Inl RuntimeError
      else case expand (replicate (length tgt - length vs) 1 @ vs) tgt (data v) of
             None \<Rightarrow> Inl RuntimeError
           | Some ys \<Rightarrow> Inr ys)"

text \<open>
  \<^verbatim>\<open>t[lo:hi] = v\<close> and \<^verbatim>\<open>t[lo:hi, :] = v\<close> for a tensor value \<open>v\<close>: rows
  \<open>lo\<close> to \<open>hi - 1\<close> (the slice is clamped to the first dimension) receive the
  broadcast value.
\<close>

definition set_rows :: "'a tensor \<Rightarrow> nat \<Rightarrow> nat \<Rightarrow> 'a tensor \<Rightarrow> error + 'a tensor" where
  "set_rows t lo hi v =
     (let n = hd (shape t); hi' = min hi n; lo' = min lo hi'; c = row_len t in
      bind_err (broadcast_to v ((hi' - lo') # tl (shape t))) (\<lambda>ys.
        Inr (t\<lparr>data := take (lo' * c) (data t) @ ys @ drop (hi' * c) (data t)\<rparr>)))"

text \<open>\<^verbatim>\<open>t[lo:hi] = x\<close> and \<^verbatim>\<open>t[lo:hi, :] = x\<close> for a number \<open>x\<close>.\<close>

definition fill_rows :: "'a tensor \<Rightarrow> nat \<Rightarrow> nat \<Rightarrow> 'a \<Rightarrow> 'a tensor" where
  "fill_rows t lo hi x =
     (let n = hd (shape t); hi' = min hi n; lo' = min lo hi'; c = row_len t in
      t\<lparr>data := take (lo' * c) (data t) @ replicate ((hi' - lo') * c) x
                  @ drop (hi' * c) (data t)\<rparr>)"

subsection \<open>Floating-point entries\<close>

text \<open>
  A floating-point value is a finite number or one of the non-finite values (the two
  infinities and NaN), which are not told apart. A number format rounds an exact result
  to one of its values.
\<close>

datatype fl = Fin real | NonFin

type_synonym rounding = "real \<Rightarrow> fl"

subsection \<open>The head and its collaborators\<close>

text \<open>
  The functions imported from \<^verbatim>\<open>mmdet.core\<close>, \<^verbatim>\<open>mmdet.models.losses\<close> and
  \<^verbatim>\<open>torch.nn.functional\<close> are not part of the file; they are parameters. \<open>hbb2poly_box\<close> gives the corner
  representation of one axis-aligned box.
\<close>

record core =
  bbox2type :: "real tensor \<Rightarrow> string \<Rightarrow> error + real tensor"
  hbb2poly_box :: "real list \<Rightarrow> real list"
  accuracy :: "real tensor \<Rightarrow> int tensor \<Rightarrow> error + real"
  affine_grid :: "fl tensor \<Rightarrow> nat list \<Rightarrow> error + fl tensor"
  grid_sample :: "fl tensor \<Rightarrow> fl tensor \<Rightarrow> error + fl tensor"

type_synonym regression_loss =
  "real tensor \<Rightarrow> real tensor \<Rightarrow> real tensor \<Rightarrow> real \<Rightarrow> string option \<Rightarrow> error + real"

text \<open>
  The attributes of \<^verbatim>\<open>VRBBoxHead\<close> that the methods read: the configuration, the three
  coders (built from the registry, so parameters here) and the five loss modules.
\<close>

record head =
  num_classes :: nat
  num_bins :: nat
  reg_class_agnostic :: bool
  ratio_thr :: real
  in_channels :: nat
  roi_feat_area :: nat
  bbox_coder_encode :: "real tensor \<Rightarrow> real tensor \<Rightarrow> error + real tensor"
  bbox_coder_decode :: "real tensor \<Rightarrow> real tensor \<Rightarrow> nat list \<Rightarrow> error + real tensor"
  bin_coder_encode ::
    "real tensor \<Rightarrow> error + (real tensor \<times> real tensor \<times> real tensor \<times> real tensor)"
  bin_coder_decode :: "real tensor \<Rightarrow> real tensor \<Rightarrow> real tensor \<Rightarrow> error + real tensor"
  ratio_coder_encode :: "real tensor \<Rightarrow> error + real tensor"
  loss_cls ::
    "real tensor \<Rightarrow> int tensor \<Rightarrow> real tensor \<Rightarrow> real \<Rightarrow> string option \<Rightarrow> error + real"
  loss_bbox :: regression_loss
  loss_bin_cls :: regression_loss
  loss_bin_offset :: regression_loss
  loss_ratio :: regression_loss

record train_cfg =
  pos_weight :: real

text \<open>The sampling result of one image, as the target assigner reads it.\<close>

record sampling_result =
  pos_bboxes :: "real tensor"
  neg_bboxes :: "real tensor"
  pos_gt_bboxes :: "real tensor"
  pos_gt_labels :: "int tensor"

text \<open>The ten tensors returned by the target assigner, in the order of the source.\<close>

record target_bundle =
  labels :: "int tensor"
  label_weights :: "real tensor"
  bbox_targets :: "real tensor"
  bbox_weights :: "real tensor"
  bin_cls_targets :: "real tensor"
  bin_cls_weights :: "real tensor"
  bin_offset_targets :: "real tensor"
  bin_offset_weights :: "real tensor"
  ratio_targets :: "real tensor"
  ratio_weights :: "real tensor"

section \<open>Target assignment\<close>

text \<open>
  \<^verbatim>\<open>_get_target_single\<close>, lines 159 to 207. The bundle starts as background labels
  and zeros; the branch \<^verbatim>\<open>if num_pos > 0\<close> writes the first \<open>num_pos\<close> rows, the
  branch \<^verbatim>\<open>if num_neg > 0\<close> writes the last \<open>num_neg\<close> label weights.
\<close>

definition init_targets :: "head \<Rightarrow> nat \<Rightarrow> target_bundle" where
  "init_targets h num_samples =
     \<lparr>labels = new_full [num_samples] (int (num_classes h)),
      label_weights = new_zeros [num_samples],
      bbox_targets = new_zeros [num_samples, 4],
      bbox_weights = new_zeros [num_samples, 4],
      bin_cls_targets = new_zeros [num_samples, 4 * num_bins h],
      bin_cls_weights = new_zeros [num_samples, 4 * num_bins h],
      bin_offset_targets = new_zeros [num_samples, 4],
      bin_offset_weights = new_zeros [num_samples, 4],
      ratio_targets = new_zeros [num_samples, 1],
      ratio_weights = new_zeros [num_samples, 1]\<rparr>"

definition assign_pos ::
  "core \<Rightarrow> head \<Rightarrow> nat \<Rightarrow> real tensor \<Rightarrow> real tensor \<Rightarrow> int tensor \<Rightarrow> train_cfg
     \<Rightarrow> target_bundle \<Rightarrow> error + target_bundle" where
  "assign_pos K h num_pos pos_bbs pos_gt_bbs pos_gt_lbls cfg tb =
     bind_err (set_rows (labels tb) 0 num_pos pos_gt_lbls) (\<lambda>lbls.
     let pos_w = (if pos_weight cfg \<le> 0 then 1 else pos_weight cfg);
         lw = fill_rows (label_weights tb) 0 num_pos pos_w in
     bind_err (bbox2type K pos_gt_bbs ''hbb'') (\<lambda>gt_hbb.
     bind_err (bbox_coder_encode h pos_bbs gt_hbb) (\<lambda>pos_bbox_targets.
     bind_err (set_rows (bbox_targets tb) 0 num_pos pos_bbox_targets) (\<lambda>bt.
     let bw = fill_rows (bbox_weights tb) 0 num_pos 1 in
     bind_err (bbox2type K pos_gt_bbs ''poly'') (\<lambda>gt_poly.
     bind_err (bin_coder_encode h gt_poly) (\<lambda>(bct', bcw', bot', bow').
     bind_err (set_rows (bin_cls_targets tb) 0 num_pos bct') (\<lambda>bct.
     bind_err (set_rows (bin_cls_weights tb) 0 num_pos bcw') (\<lambda>bcw.
     bind_err (set_rows (bin_offset_targets tb) 0 num_pos bot') (\<lambda>bot.
     bind_err (set_rows (bin_offset_weights tb) 0 num_pos bow') (\<lambda>bow.
     bind_err (bbox2type K pos_gt_bbs ''poly'') (\<lambda>gt_poly2.
     bind_err (ratio_coder_encode h gt_poly2) (\<lambda>pos_ratio_targets.
     bind_err (set_rows (ratio_targets tb) 0 num_pos pos_ratio_targets) (\<lambda>rt.
     let rw = fill_rows (ratio_weights tb) 0 num_pos 1 in
     Inr \<lparr>labels = lbls, label_weights = lw, bbox_targets = bt, bbox_weights = bw,
          bin_cls_targets = bct, bin_cls_weights = bcw,
          bin_offset_targets = bot, bin_offset_weights = bow,
          ratio_targets = rt, ratio_weights = rw\<rparr>)))))))))))))"

definition get_target_single ::
  "core \<Rightarrow> head \<Rightarrow> real tensor \<Rightarrow> real tensor \<Rightarrow> real tensor \<Rightarrow> int tensor \<Rightarrow> train_cfg
     \<Rightarrow> error + target_bundle" where
  "get_target_single K h pos_bbs neg_bbs pos_gt_bbs pos_gt_lbls cfg =
     bind_err (tsize pos_bbs 0) (\<lambda>num_pos.
     bind_err (tsize neg_bbs 0) (\<lambda>num_neg.
     let num_samples = num_pos + num_neg;
         tb0 = init_targets h num_samples in
     bind_err (if num_pos > 0
               then assign_pos K h num_pos pos_bbs pos_gt_bbs pos_gt_lbls cfg tb0
               else Inr tb0) (\<lambda>tb.
     Inr (if num_neg > 0
          then tb\<lparr>label_weights :=
                    fill_rows (label_weights tb) (num_samples - num_neg) num_samples 1\<rparr>
          else tb))))"

text \<open>
  The layout of one image's bundle: \<open>np\<close> rows of positive samples followed by \<open>nn\<close>
  rows of negative samples. The positive rows of the labels and of the encoded targets are
  given (\<open>L\<close>, \<open>BT\<close>, ...); a negative row carries the background label, label weight 1
  and zeros everywhere else.
\<close>

definition pos_neg_bundle ::
  "head \<Rightarrow> train_cfg \<Rightarrow> nat \<Rightarrow> nat \<Rightarrow> int list \<Rightarrow> real list \<Rightarrow> real list \<Rightarrow> real list
     \<Rightarrow> real list \<Rightarrow> real list \<Rightarrow> real list \<Rightarrow> target_bundle" where
  "pos_neg_bundle h cfg np nn L BT BCT BCW BOT BOW RT =
     \<lparr>labels = \<lparr>shape = [np + nn], data = L @ replicate nn (int (num_classes h))\<rparr>,
      label_weights = \<lparr>shape = [np + nn],
         data = replicate np (if pos_weight cfg \<le> 0 then 1 else pos_weight cfg)
                @ replicate nn 1\<rparr>,
      bbox_targets = \<lparr>shape = [np + nn, 4], data = BT @ replicate (nn * 4) 0\<rparr>,
      bbox_weights = \<lparr>shape = [np + nn, 4],
         data = replicate (np * 4) 1 @ replicate (nn * 4) 0\<rparr>,
      bin_cls_targets = \<lparr>shape = [np + nn, 4 * num_bins h],
         data = BCT @ replicate (nn * (4 * num_bins h)) 0\<rparr>,
      bin_cls_weights = \<lparr>shape = [np + nn, 4 * num_bins h],
         data = BCW @ replicate (nn * (4 * num_bins h)) 0\<rparr>,
      bin_offset_targets = \<lparr>shape = [np + nn, 4], data = BOT @ replicate (nn * 4) 0\<rparr>,
      bin_offset_weights = \<lparr>shape = [np + nn, 4], data = BOW @ replicate (nn * 4) 0\<rparr>,
      ratio_targets = \<lparr>shape = [np + nn, 1], data = RT @ replicate nn 0\<rparr>,
      ratio_weights = \<lparr>shape = [np + nn, 1], data = replicate np 1 @ replicate nn 0\<rparr>\<rparr>"

definition pos_parts_fit ::
  "head \<Rightarrow> nat \<Rightarrow> int list \<Rightarrow> real list \<Rightarrow> real list \<Rightarrow> real list
     \<Rightarrow> real list \<Rightarrow> real list \<Rightarrow> real list \<Rightarrow> bool" where
  "pos_parts_fit h np L BT BCT BCW BOT BOW RT =
     (length L = np \<and> length BT = np * 4 \<and> length BCT = np * (4 * num_bins h) \<and>
      length BCW = np * (4 * num_bins h) \<and> length BOT = np * 4 \<and>
      length BOW = np * 4 \<and> length RT = np)"

section \<open>Class-conditional regression\<close>

subsection \<open>Tensor operations used by the decoder and the refiner\<close>

text \<open>
  The predictions are matrices and the labels a vector, as the docstrings say; the
  operations below are the two-dimensional cases of the torch operations, and refuse other
  ranks.
\<close>

text \<open>\<^verbatim>\<open>t.view(-1, c)\<close>: the entries must divide into rows of \<open>c\<close>.\<close>

definition view2 :: "'a tensor \<Rightarrow> nat \<Rightarrow> error + 'a tensor" where
  "view2 t c =
     (if c = 0 \<or> numel t mod c \<noteq> 0 then Inl RuntimeError
      else Inr \<lparr>shape = [numel t div c, c], data = data t\<rparr>)"

text \<open>
  \<^verbatim>\<open>torch.gather(t, 1, idx)\<close>: the result has the shape of \<open>idx\<close>, and its entry
  \<open>(i, j)\<close> is \<open>t[i][idx[i][j]]\<close>. The index may not have more rows than \<open>t\<close>, and its
  entries must be columns of \<open>t\<close>.
\<close>

definition gather1 :: "'a tensor \<Rightarrow> int tensor \<Rightarrow> error + 'a tensor" where
  "gather1 t idx =
     (case (shape t, shape idx) of
        ([r, c], [n, k]) \<Rightarrow>
          if n \<le> r \<and> list_all (\<lambda>j. 0 \<le> j \<and> j < int c) (take (n * k) (data idx))
          then Inr \<lparr>shape = [n, k],
                    data = map (\<lambda>p. data t ! ((p div k) * c + nat (data idx ! p))) [0..<n * k]\<rparr>
          else Inl RuntimeError
      | _ \<Rightarrow> Inl RuntimeError)"

text \<open>\<^verbatim>\<open>label[:, None]\<close> for a vector of labels.\<close>

definition unsqueeze1 :: "'a tensor \<Rightarrow> error + 'a tensor" where
  "unsqueeze1 t =
     (case shape t of [] \<Rightarrow> Inl IndexError
      | n # rest \<Rightarrow> Inr \<lparr>shape = n # 1 # rest, data = data t\<rparr>)"

text \<open>
  \<^verbatim>\<open>label = label * 4; inds = torch.stack([label + i for i in range(4)], 1)\<close>
  for a vector of labels: row \<open>i\<close> of \<open>inds\<close> is \<open>4 * label[i] + 0, 1, 2, 3\<close>.
\<close>

definition class_inds :: "int tensor \<Rightarrow> error + int tensor" where
  "class_inds label =
     (case shape label of
        [n] \<Rightarrow> Inr \<lparr>shape = [n, 4],
                   data = concat (map (\<lambda>l. [l * 4 + 0, l * 4 + 1, l * 4 + 2, l * 4 + 3])
                                      (take n (data label)))\<rparr>
      | [] \<Rightarrow> Inl IndexError
      | _ \<Rightarrow> Inl RuntimeError)"

text \<open>\<^verbatim>\<open>t.squeeze(1)\<close>: dimension 1 is removed when its size is 1.\<close>

definition squeeze1 :: "'a tensor \<Rightarrow> error + 'a tensor" where
  "squeeze1 t =
     (case shape t of
        n # c # rest \<Rightarrow> Inr (if c = 1 then \<lparr>shape = n # rest, data = data t\<rparr> else t)
      | _ \<Rightarrow> Inl IndexError)"

text \<open>\<^verbatim>\<open>t > thr\<close>, entry by entry.\<close>

definition gt_mask :: "real tensor \<Rightarrow> real \<Rightarrow> bool tensor" where
  "gt_mask t thr = \<lparr>shape = shape t, data = map (\<lambda>x. thr < x) (data t)\<rparr>"

text \<open>
  Indexing by a boolean mask. The mask covers the leading dimensions of the tensor; a cell
  is what one entry of the mask selects (\<open>c\<close> consecutive entries). \<open>select_cells\<close>
  collects the selected cells in order, \<open>put_cells\<close> overwrites them in order with the
  cells of \<open>vs\<close>.
\<close>

fun select_cells :: "bool list \<Rightarrow> nat \<Rightarrow> 'a list \<Rightarrow> 'a list" where
  "select_cells [] c xs = []"
| "select_cells (m # ms) c xs =
     (if m then take c xs else []) @ select_cells ms c (drop c xs)"

fun put_cells :: "bool list \<Rightarrow> nat \<Rightarrow> 'a list \<Rightarrow> 'a list \<Rightarrow> 'a list" where
  "put_cells [] c xs vs = xs"
| "put_cells (m # ms) c xs vs =
     (if m then take c vs @ put_cells ms c (drop c xs) (drop c vs)
      else take c xs @ put_cells ms c (drop c xs) vs)"

definition count_true :: "bool tensor \<Rightarrow> nat" where
  "count_true m = length (filter (\<lambda>b. b) (data m))"

text \<open>\<^verbatim>\<open>t[mask]\<close>; a mask of another shape than the leading dimensions raises IndexError.\<close>

definition mask_select :: "'a tensor \<Rightarrow> bool tensor \<Rightarrow> error + 'a tensor" where
  "mask_select t m =
     (let r = length (shape m) in
      if take r (shape t) \<noteq> shape m then Inl IndexError
      else let rest = drop r (shape t) in
        Inr \<lparr>shape = count_true m # rest,
             data = select_cells (data m) (prod_list rest) (data t)\<rparr>)"

text \<open>
  \<^verbatim>\<open>t[mask] = v\<close>: the value is broadcast to the shape of \<^verbatim>\<open>t[mask]\<close>, that is
  (number of selected cells) \<open>#\<close> (shape of a cell); a value that does not broadcast to it
  raises RuntimeError (``shape mismatch: value tensor of shape ... cannot be broadcast to
  indexing result of shape ...'').
\<close>

definition mask_assign :: "'a tensor \<Rightarrow> bool tensor \<Rightarrow> 'a tensor \<Rightarrow> error + 'a tensor" where
  "mask_assign t m v =
     (let r = length (shape m) in
      if take r (shape t) \<noteq> shape m then Inl IndexError
      else let rest = drop r (shape t) in
        bind_err (broadcast_to v (count_true m # rest)) (\<lambda>ys.
          Inr (t\<lparr>data := put_cells (data m) (prod_list rest) (data t) ys\<rparr>)))"

text \<open>\<^verbatim>\<open>rois[:, 1:]\<close> and \<^verbatim>\<open>rois[:, [0]]\<close> for a matrix.\<close>

definition cols_from1 :: "'a tensor \<Rightarrow> error + 'a tensor" where
  "cols_from1 t =
     (case shape t of
        [n, c] \<Rightarrow> Inr \<lparr>shape = [n, c - 1],
                      data = concat (map (\<lambda>i. tl (take c (drop (i * c) (data t)))) [0..<n])\<rparr>
      | _ \<Rightarrow> Inl IndexError)"

definition col0 :: "'a tensor \<Rightarrow> error + 'a tensor" where
  "col0 t =
     (case shape t of
        [n, c] \<Rightarrow> if c = 0 then Inl IndexError
                  else Inr \<lparr>shape = [n, 1], data = map (\<lambda>i. data t ! (i * c)) [0..<n]\<rparr>
      | _ \<Rightarrow> Inl IndexError)"

text \<open>\<^verbatim>\<open>torch.cat((a, b), dim=1)\<close> for two matrices with the same number of rows.\<close>

definition cat1 :: "'a tensor \<Rightarrow> 'a tensor \<Rightarrow> error + 'a tensor" where
  "cat1 a b =
     (case (shape a, shape b) of
        ([n, ca], [n', cb]) \<Rightarrow>
          if n = n'
          then Inr \<lparr>shape = [n, ca + cb],
                    data = concat (map (\<lambda>i. take ca (drop (i * ca) (data a))
                                              @ take cb (drop (i * cb) (data b))) [0..<n])\<rparr>
          else Inl RuntimeError
      | _ \<Rightarrow> Inl RuntimeError)"

text \<open>
  Modelled from the spec: \<^verbatim>\<open>hbb2poly\<close> of \<^verbatim>\<open>mmdet.core\<close> is not in the source
  tree. It turns each axis-aligned box (4 values) into the polygon of its corners (8 values);
  the corners of one box are the parameter \<open>hbb2poly_box\<close>.
\<close>

definition hbb2poly :: "core \<Rightarrow> real tensor \<Rightarrow> real tensor" where
  "hbb2poly K t =
     \<lparr>shape = butlast (shape t) @ [8],
      data = concat (map (\<lambda>i. hbb2poly_box K (take 4 (drop (i * 4) (data t))))
                         [0..<prod_list (butlast (shape t))])\<rparr>"

subsection \<open>The refiner\<close>

record img_meta =
  img_shape :: "nat list"

text \<open>
  Lines 445 to 455 of \<^verbatim>\<open>regress_by_class\<close>: the branch
  \<^verbatim>\<open>if not self.reg_class_agnostic\<close>, which picks from each prediction the values of
  the sample's class. It returns the new \<open>bbox_pred\<close>, \<open>bin_cls_pred\<close>,
  \<open>bin_offset_pred\<close> and \<open>ratio_pred\<close>.
\<close>

definition gather_by_class ::
  "head \<Rightarrow> int tensor \<Rightarrow> real tensor \<Rightarrow> real tensor \<Rightarrow> real tensor \<Rightarrow> real tensor
     \<Rightarrow> error + (real tensor \<times> real tensor \<times> real tensor \<times> real tensor)" where
  "gather_by_class h label bbox_pred bin_cls_pred bin_offset_pred ratio_pred =
     bind_err (unsqueeze1 label) (\<lambda>label_col.
     bind_err (gather1 ratio_pred label_col) (\<lambda>ratio_pred'.
     bind_err (view2 bin_cls_pred (4 * num_classes h)) (\<lambda>bin_cls_view.
     bind_err (class_inds label) (\<lambda>inds.
     bind_err (gather1 bbox_pred inds) (\<lambda>bbox_pred'.
     bind_err (gather1 bin_cls_view inds) (\<lambda>bin_cls_gathered.
     bind_err (gather1 bin_offset_pred inds) (\<lambda>bin_offset_pred'.
     bind_err (view2 bin_cls_gathered (4 * num_bins h)) (\<lambda>bin_cls_pred'.
     Inr (bbox_pred', bin_cls_pred', bin_offset_pred', ratio_pred')))))))))"

text \<open>\<^verbatim>\<open>assert t.size(1) == k\<close>.\<close>

definition assert_size1 :: "'a tensor \<Rightarrow> nat \<Rightarrow> error + unit" where
  "assert_size1 t k =
     bind_err (tsize t 1) (\<lambda>c. if c = k then Inr () else Inl AssertionError)"

text \<open>\<^verbatim>\<open>regress_by_class\<close>, lines 427 to 473.\<close>

definition regress_by_class ::
  "core \<Rightarrow> head \<Rightarrow> real tensor \<Rightarrow> int tensor \<Rightarrow> real tensor \<Rightarrow> real tensor \<Rightarrow> real tensor
     \<Rightarrow> real tensor \<Rightarrow> img_meta \<Rightarrow> error + real tensor" where
  "regress_by_class K h rois label bbox_pred bin_cls_pred bin_offset_pred ratio_pred meta =
     bind_err (tsize rois 1) (\<lambda>rois_cols.
     if \<not> (rois_cols = 4 \<or> rois_cols = 5) then Inl AssertionError
     else
     bind_err (if \<not> reg_class_agnostic h
               then gather_by_class h label bbox_pred bin_cls_pred bin_offset_pred ratio_pred
               else Inr (bbox_pred, bin_cls_pred, bin_offset_pred, ratio_pred))
       (\<lambda>(bbox_pred, bin_cls_pred, bin_offset_pred, ratio_pred).
     bind_err (assert_size1 bbox_pred 4) (\<lambda>_.
     bind_err (assert_size1 bin_cls_pred (4 * num_bins h)) (\<lambda>_.
     bind_err (assert_size1 bin_offset_pred 4) (\<lambda>_.
     if rois_cols = 4 then
       bind_err (bbox_coder_decode h rois bbox_pred (img_shape meta)) (\<lambda>bboxes.
       bind_err (bin_coder_decode h bboxes bin_cls_pred bin_offset_pred) (\<lambda>new_rois.
       bind_err (squeeze1 ratio_pred) (\<lambda>ratio_pred.
       mask_assign new_rois (gt_mask ratio_pred (ratio_thr h)) (hbb2poly K bboxes))))
     else
       bind_err (cols_from1 rois) (\<lambda>rois_box.
       bind_err (bbox_coder_decode h rois_box bbox_pred (img_shape meta)) (\<lambda>bboxes.
       bind_err (bin_coder_decode h bboxes bin_cls_pred bin_offset_pred) (\<lambda>polys.
       bind_err (squeeze1 ratio_pred) (\<lambda>ratio_pred.
       bind_err (mask_assign polys (gt_mask ratio_pred (ratio_thr h)) (hbb2poly K bboxes))
         (\<lambda>polys.
       bind_err (col0 rois) (\<lambda>ids.
       cat1 ids polys)))))))))))"

section \<open>Loss composition\<close>

text \<open>\<^verbatim>\<open>t.view(*shp)\<close> for a shape without \<open>-1\<close>.\<close>

definition view_shape :: "'a tensor \<Rightarrow> nat list \<Rightarrow> error + 'a tensor" where
  "view_shape t shp =
     (if prod_list shp = numel t then Inr \<lparr>shape = shp, data = data t\<rparr>
      else Inl RuntimeError)"

text \<open>\<^verbatim>\<open>t.view(t.size(0), -1, c)\<close>.\<close>

definition view3 :: "'a tensor \<Rightarrow> nat \<Rightarrow> error + 'a tensor" where
  "view3 t c =
     bind_err (tsize t 0) (\<lambda>n.
       if n * c = 0 \<or> numel t mod (n * c) \<noteq> 0 then Inl RuntimeError
       else Inr \<lparr>shape = [n, numel t div (n * c), c], data = data t\<rparr>)"

text \<open>
  \<^verbatim>\<open>t[mask, idx]\<close> for a tensor of shape \<open>(n, classes, c)\<close>, a boolean mask over
  the first dimension and a vector \<open>idx\<close> with one class index for each selected row: the
  result has one row for each selected \<open>i\<close>, the slice \<open>t[i, idx[j], :]\<close>. A negative
  index counts from the end; an index outside the class dimension raises IndexError.
\<close>

definition index_rows_classes ::
  "'a tensor \<Rightarrow> bool tensor \<Rightarrow> int tensor \<Rightarrow> error + 'a tensor" where
  "index_rows_classes t m idx =
     (case shape t of
        [n, classes, c] \<Rightarrow>
          if shape m \<noteq> [n] then Inl IndexError
          else
            let rows = filter (\<lambda>i. data m ! i) [0..<n];
                cols = take (length rows) (data idx) in
            if shape idx \<noteq> [length rows] then Inl IndexError
            else if \<not> list_all (\<lambda>j. - int classes \<le> j \<and> j < int classes) cols
            then Inl IndexError
            else Inr \<lparr>shape = [length rows, c],
                      data = concat (map (\<lambda>(i, j).
                                 take c (drop ((i * classes
                                     + nat (if j < 0 then j + int classes else j)) * c)
                                   (data t)))
                               (zip rows cols))\<rparr>
      | _ \<Rightarrow> Inl IndexError)"

text \<open>\<^verbatim>\<open>pos_inds = (labels >= 0) & (labels < bg_class_ind)\<close>.\<close>

definition pos_inds :: "head \<Rightarrow> int tensor \<Rightarrow> bool tensor" where
  "pos_inds h lbls =
     \<lparr>shape = shape lbls,
      data = map (\<lambda>l. 0 \<le> l \<and> l < int (num_classes h)) (data lbls)\<rparr>"

text \<open>\<^verbatim>\<open>pos_inds.any()\<close>.\<close>

definition any_true :: "bool tensor \<Rightarrow> bool" where
  "any_true m = list_ex (\<lambda>b. b) (data m)"

text \<open>
  The class-indexed selection of lines 288 to 303:
  \<^verbatim>\<open>pred.view(pred.size(0), -1, c)[pos_inds, labels[pos_inds]]\<close>.
\<close>

definition select_pos_class ::
  "head \<Rightarrow> real tensor \<Rightarrow> int tensor \<Rightarrow> nat \<Rightarrow> error + real tensor" where
  "select_pos_class h pred lbls c =
     bind_err (view3 pred c) (\<lambda>v.
     bind_err (mask_select lbls (pos_inds h lbls)) (\<lambda>pos_labels.
     index_rows_classes v (pos_inds h lbls) pos_labels))"

text \<open>The class-agnostic selection of lines 279 to 286: \<^verbatim>\<open>pred.view(pred.size(0), c)[pos_inds]\<close>.\<close>

definition select_pos ::
  "head \<Rightarrow> real tensor \<Rightarrow> int tensor \<Rightarrow> nat \<Rightarrow> error + real tensor" where
  "select_pos h pred lbls c =
     bind_err (tsize pred 0) (\<lambda>n.
     bind_err (view_shape pred [n, c]) (\<lambda>v.
     mask_select v (pos_inds h lbls)))"

text \<open>The five tensors returned by \<^verbatim>\<open>forward\<close>.\<close>

record predictions =
  cls_score :: "real tensor"
  bbox_pred :: "real tensor"
  bin_cls_pred :: "real tensor"
  bin_offset_pred :: "real tensor"
  ratio_pred :: "real tensor"

text \<open>
  Lines 262 to 271 of \<^verbatim>\<open>loss\<close>: the classification loss and the accuracy enter the
  dictionary only when \<^verbatim>\<open>cls_score.numel() > 0\<close>.
\<close>

definition loss_cls_part ::
  "core \<Rightarrow> head \<Rightarrow> predictions \<Rightarrow> target_bundle \<Rightarrow> string option
     \<Rightarrow> error + (string \<rightharpoonup> real)" where
  "loss_cls_part K h P T reduction_override =
     (let losses = Map.empty;
          avg_factor = max (real (count_true (gt_mask (label_weights T) 0))) 1 in
      if numel (cls_score P) > 0 then
        bind_err (loss_cls h (cls_score P) (labels T) (label_weights T) avg_factor
                    reduction_override) (\<lambda>l.
        bind_err (accuracy K (cls_score P) (labels T)) (\<lambda>a.
        Inr (losses(''loss_cls'' \<mapsto> l, ''acc'' \<mapsto> a))))
      else Inr losses)"

text \<open>Lines 277 to 327: the four regression losses over the positive samples.\<close>

definition loss_pos_part ::
  "head \<Rightarrow> predictions \<Rightarrow> target_bundle \<Rightarrow> string option \<Rightarrow> (string \<rightharpoonup> real)
     \<Rightarrow> error + (string \<rightharpoonup> real)" where
  "loss_pos_part h P T reduction_override losses =
     (let sel = (if reg_class_agnostic h then select_pos h else select_pos_class h);
          pos = pos_inds h (labels T) in
      bind_err (sel (bbox_pred P) (labels T) 4) (\<lambda>pos_bbox_pred.
      bind_err (sel (bin_cls_pred P) (labels T) (4 * num_bins h)) (\<lambda>pos_bin_cls_pred.
      bind_err (sel (bin_offset_pred P) (labels T) 4) (\<lambda>pos_bin_offset_pred.
      bind_err (sel (ratio_pred P) (labels T) 1) (\<lambda>pos_ratio_pred.
      bind_err (mask_select (bbox_targets T) pos) (\<lambda>bt.
      bind_err (mask_select (bbox_weights T) pos) (\<lambda>bw.
      bind_err (tsize (bbox_targets T) 0) (\<lambda>n_bt.
      bind_err (loss_bbox h pos_bbox_pred bt bw (real n_bt) reduction_override) (\<lambda>l_bbox.
      bind_err (mask_select (bin_cls_targets T) pos) (\<lambda>bct.
      bind_err (mask_select (bin_cls_weights T) pos) (\<lambda>bcw.
      bind_err (tsize (bin_cls_targets T) 0) (\<lambda>n_bct.
      bind_err (loss_bin_cls h pos_bin_cls_pred bct bcw (real (n_bct * num_bins h))
                  reduction_override) (\<lambda>l_bin_cls.
      bind_err (mask_select (bin_offset_targets T) pos) (\<lambda>bot.
      bind_err (mask_select (bin_offset_weights T) pos) (\<lambda>bow.
      bind_err (tsize (bin_offset_targets T) 0) (\<lambda>n_bot.
      bind_err (loss_bin_offset h pos_bin_offset_pred bot bow (real n_bot)
                  reduction_override) (\<lambda>l_bin_offset.
      bind_err (mask_select (ratio_targets T) pos) (\<lambda>rt.
      bind_err (mask_select (ratio_weights T) pos) (\<lambda>rw.
      bind_err (tsize (ratio_targets T) 0) (\<lambda>n_rt.
      bind_err (loss_ratio h pos_ratio_pred rt rw (real n_rt) reduction_override) (\<lambda>l_ratio.
      Inr (losses(''loss_bbox'' \<mapsto> l_bbox, ''loss_bin_cls'' \<mapsto> l_bin_cls,
                  ''loss_bin_offset'' \<mapsto> l_bin_offset, ''loss_ratio'' \<mapsto> l_ratio))
      )))))))))))))))))))))"

text \<open>
  \<^verbatim>\<open>loss\<close>, lines 244 to 334. Without positive samples each regression loss is the sum
  of its prediction tensor times zero (lines 329 to 332). The entries are real numbers
  here, so that product is 0; the float product of the source is NaN when the sum is not
  finite, and its place in the autograd graph is no part of a value. Nothing below relies on
  the value of these four entries, only on their presence.
\<close>

definition loss ::
  "core \<Rightarrow> head \<Rightarrow> predictions \<Rightarrow> real tensor \<Rightarrow> target_bundle \<Rightarrow> string option
     \<Rightarrow> error + (string \<rightharpoonup> real)" where
  "loss K h P rois T reduction_override =
     bind_err (loss_cls_part K h P T reduction_override) (\<lambda>losses.
       if any_true (pos_inds h (labels T))
       then loss_pos_part h P T reduction_override losses
       else Inr (losses(''loss_bbox'' \<mapsto> sum_list (data (bbox_pred P)) * 0,
                        ''loss_bin_cls'' \<mapsto> sum_list (data (bin_cls_pred P)) * 0,
                        ''loss_bin_offset'' \<mapsto> sum_list (data (bin_offset_pred P)) * 0,
                        ''loss_ratio'' \<mapsto> sum_list (data (ratio_pred P)) * 0)))"

section \<open>The affine warp of the forward pass\<close>

text \<open>
  The affine regressor is the one place where the file computes with the entries of a
  feature tensor itself (through \<^verbatim>\<open>nn.Linear\<close>), so the entries are floating-point values
  here (\<open>fl\<close>) and the arithmetic is that of the floats, with the rounding \<open>rnd\<close> of the
  tensor's number format as a parameter. The decorator \<^verbatim>\<open>auto_fp16\<close> of \<^verbatim>\<open>forward\<close> does
  nothing as long as \<^verbatim>\<open>fp16_enabled\<close> is \<^verbatim>\<open>False\<close>, the value the constructor gives it
  (line 57).
\<close>

text \<open>
  The product and the sum of two floats: the rounded exact result when both are finite
  (a result too large rounds to a non-finite value), a non-finite value as soon as one of
  them is non-finite (\<open>inf * 0\<close> and \<open>inf - inf\<close> are NaN, everything else with an
  infinity or a NaN is an infinity or a NaN).
\<close>

fun fl_mul :: "rounding \<Rightarrow> fl \<Rightarrow> fl \<Rightarrow> fl" where
  "fl_mul rnd (Fin a) (Fin b) = rnd (a * b)"
| "fl_mul rnd _ _ = NonFin"

fun fl_add :: "rounding \<Rightarrow> fl \<Rightarrow> fl \<Rightarrow> fl" where
  "fl_add rnd (Fin a) (Fin b) = rnd (a + b)"
| "fl_add rnd _ _ = NonFin"

fun is_fin :: "fl \<Rightarrow> bool" where
  "is_fin (Fin a) = True"
| "is_fin NonFin = False"

text \<open>
  The inner product of an input with a row of the weight. The order in which the
  library adds the products up is its own; here they are added from left to right.
\<close>

definition dot :: "rounding \<Rightarrow> fl list \<Rightarrow> fl list \<Rightarrow> fl" where
  "dot rnd xs ws = foldl (fl_add rnd) (Fin 0) (map2 (fl_mul rnd) xs ws)"

text \<open>An \<^verbatim>\<open>nn.Linear\<close> layer: a weight matrix of shape \<open>(out, in)\<close> and a bias vector.\<close>

record linear =
  lin_weight :: "fl tensor"
  lin_bias :: "fl tensor"

text \<open>
  \<^verbatim>\<open>nn.Linear(n_in, n_out)\<close> draws its initial weight and bias at random; \<open>w0 i\<close> and
  \<open>b0 j\<close> are the values drawn for entry \<open>i\<close> of the weight and entry \<open>j\<close> of the bias.
\<close>

definition new_linear :: "nat \<Rightarrow> nat \<Rightarrow> (nat \<Rightarrow> fl) \<Rightarrow> (nat \<Rightarrow> fl) \<Rightarrow> linear" where
  "new_linear n_in n_out w0 b0 =
     \<lparr>lin_weight = \<lparr>shape = [n_out, n_in], data = map w0 [0..<n_out * n_in]\<rparr>,
      lin_bias = \<lparr>shape = [n_out], data = map b0 [0..<n_out]\<rparr>\<rparr>"

text \<open>\<^verbatim>\<open>t.zero_()\<close>: every entry of the tensor becomes 0.\<close>

definition zero_tensor :: "fl tensor \<Rightarrow> fl tensor" where
  "zero_tensor t = t\<lparr>data := map (\<lambda>v. Fin 0) (data t)\<rparr>"

text \<open>
  \<^verbatim>\<open>t.copy_(src)\<close> for a source of the shape of \<open>t\<close>; another number of entries raises
  RuntimeError (broadcasting a source of another shape is not needed here).
\<close>

definition copy_from :: "'a tensor \<Rightarrow> 'a list \<Rightarrow> error + 'a tensor" where
  "copy_from t src = (if length src = numel t then Inr (t\<lparr>data := src\<rparr>) else Inl RuntimeError)"

text \<open>
  Applying the layer: the last dimension of the input is the layer's input size, the
  leading dimensions number the inputs. Entry \<open>j\<close> of the result for input \<open>i\<close> is the
  inner product of the input with row \<open>j\<close> of the weight, plus \<open>bias[j]\<close>. A last
  dimension other than the layer's input size, or no dimension at all, raises
  RuntimeError.
\<close>

definition linear_apply :: "rounding \<Rightarrow> linear \<Rightarrow> fl tensor \<Rightarrow> error + fl tensor" where
  "linear_apply rnd fc x =
     (case (rev (shape x), shape (lin_weight fc)) of
        (k # lead, [n_out, n_in]) \<Rightarrow>
          if k = n_in
          then Inr \<lparr>shape = rev lead @ [n_out],
                    data = concat (map (\<lambda>i. map (\<lambda>j.
                               fl_add rnd (dot rnd (take k (drop (i * k) (data x)))
                                                   (row (lin_weight fc) j))
                                          (data (lin_bias fc) ! j)) [0..<n_out])
                             [0..<prod_list lead])\<rparr>
          else Inl RuntimeError
      | _ \<Rightarrow> Inl RuntimeError)"

text \<open>\<^verbatim>\<open>x.flatten(1)\<close>.\<close>

definition flatten1 :: "'a tensor \<Rightarrow> error + 'a tensor" where
  "flatten1 t =
     (case shape t of
        n # d # rest \<Rightarrow> Inr \<lparr>shape = [n, prod_list (d # rest)], data = data t\<rparr>
      | _ \<Rightarrow> Inl IndexError)"

text \<open>
  The part of the module's state that \<^verbatim>\<open>affine_trans\<close> writes: the attribute
  \<^verbatim>\<open>self.fc_theta\<close> (absent before the first call).
\<close>

record head_state =
  fc_theta :: "linear option"

text \<open>
  \<^verbatim>\<open>affine_trans\<close>, lines 123 to 133: a new layer replaces \<^verbatim>\<open>self.fc_theta\<close>, its
  weight is zeroed, its bias receives \<open>[1, 0, 0, 0, 1, 0]\<close>, and it is applied to the
  features. The result comes with the new state; the attribute is assigned before
  anything can raise.
\<close>

definition affine_trans ::
  "rounding \<Rightarrow> head \<Rightarrow> head_state \<Rightarrow> (nat \<Rightarrow> fl) \<Rightarrow> (nat \<Rightarrow> fl) \<Rightarrow> fl tensor
     \<Rightarrow> (error + fl tensor) \<times> head_state" where
  "affine_trans rnd h s w0 b0 feats =
     (let fc = new_linear (in_channels h * roi_feat_area h) 6 w0 b0;
          s = s\<lparr>fc_theta := Some fc\<rparr>;
          fc = fc\<lparr>lin_weight := zero_tensor (lin_weight fc)\<rparr>;
          s = s\<lparr>fc_theta := Some fc\<rparr>
      in case copy_from (lin_bias fc) [Fin 1, Fin 0, Fin 0, Fin 0, Fin 1, Fin 0] of
           Inl e \<Rightarrow> (Inl e, s)
         | Inr b \<Rightarrow>
             (let fc = fc\<lparr>lin_bias := b\<rparr>;
                  s = s\<lparr>fc_theta := Some fc\<rparr>
              in (linear_apply rnd fc feats, s)))"

text \<open>
  Lines 138 and 139 of \<^verbatim>\<open>forward\<close>: \<open>theta\<close>, one \<open>2 \<times> 3\<close> matrix for each sample.
\<close>

definition forward_theta ::
  "rounding \<Rightarrow> head \<Rightarrow> head_state \<Rightarrow> (nat \<Rightarrow> fl) \<Rightarrow> (nat \<Rightarrow> fl) \<Rightarrow> fl tensor
     \<Rightarrow> (error + fl tensor) \<times> head_state" where
  "forward_theta rnd h s w0 b0 x =
     (case flatten1 x of
        Inl e \<Rightarrow> (Inl e, s)
      | Inr feats \<Rightarrow>
          (case affine_trans rnd h s w0 b0 feats of (r, s') \<Rightarrow>
             (bind_err r (\<lambda>theta. view_shape theta [numel theta div 6, 2, 3]), s')))"

text \<open>
  Lines 140 and 141 of \<^verbatim>\<open>forward\<close>: the features warped by the affine grid of \<open>theta\<close>
  (\<open>x_affine\<close>).
\<close>

definition forward_x_affine ::
  "core \<Rightarrow> rounding \<Rightarrow> head \<Rightarrow> head_state \<Rightarrow> (nat \<Rightarrow> fl) \<Rightarrow> (nat \<Rightarrow> fl) \<Rightarrow> fl tensor
     \<Rightarrow> (error + fl tensor) \<times> head_state" where
  "forward_x_affine K rnd h s w0 b0 x =
     (case forward_theta rnd h s w0 b0 x of (r, s') \<Rightarrow>
        (bind_err r (\<lambda>theta.
         bind_err (affine_grid K theta (shape x)) (\<lambda>grid.
         grid_sample K x grid)), s'))"

text \<open>
  The matrix of the identity transform, and the matrices a call of \<^verbatim>\<open>forward\<close>
  computes for \<open>n\<close> samples: the identity for a sample whose features are all finite,
  non-finite entries for a sample with a non-finite feature.
\<close>

definition identity_theta :: "fl list" where
  "identity_theta = [Fin 1, Fin 0, Fin 0, Fin 0, Fin 1, Fin 0]"

definition theta_of :: "fl tensor \<Rightarrow> fl tensor" where
  "theta_of x =
     \<lparr>shape = [hd (shape x), 2, 3],
      data = concat (map (\<lambda>i. if list_all is_fin (row x i) then identity_theta
                               else replicate 6 NonFin) [0..<hd (shape x)])\<rparr>"

section \<open>Targets of a batch\<close>

text \<open>
  \<^verbatim>\<open>torch.cat(ts, 0)\<close>: the list may not be empty; tensors of shape \<open>(0,)\<close> are
  skipped; the others must agree in every dimension but the first, along which they are
  joined in the order of the list.
\<close>

definition cat0 :: "'a tensor list \<Rightarrow> error + 'a tensor" where
  "cat0 ts =
     (if ts = [] then Inl RuntimeError
      else case filter (\<lambda>t. shape t \<noteq> [0]) ts of
             [] \<Rightarrow> Inr \<lparr>shape = [0], data = []\<rparr>
           | u # us \<Rightarrow>
               if list_all (\<lambda>t. shape t \<noteq> [] \<and> tl (shape t) = tl (shape u)) (u # us)
               then Inr \<lparr>shape = sum_list (map (\<lambda>t. hd (shape t)) (u # us)) # tl (shape u),
                         data = concat (map data (u # us))\<rparr>
               else Inl RuntimeError)"

text \<open>
  Modelled from the spec: \<^verbatim>\<open>multi_apply\<close> of \<^verbatim>\<open>mmdet.core\<close> is not in the source
  tree. The per-image routine is applied to every image independently, and the results are
  kept in image order (section 4.1, step 4); the first exception ends the call.
\<close>

fun multi_apply :: "('a \<Rightarrow> error + 'b) \<Rightarrow> 'a list \<Rightarrow> error + 'b list" where
  "multi_apply f [] = Inr []"
| "multi_apply f (x # xs) =
     bind_err (f x) (\<lambda>y. bind_err (multi_apply f xs) (\<lambda>ys. Inr (y # ys)))"

text \<open>
  What \<^verbatim>\<open>get_targets\<close> returns: ten concatenated tensors, or (with
  \<^verbatim>\<open>concat=False\<close>) ten lists of per-image tensors, kept here as the list of the
  per-image bundles.
\<close>

datatype targets_out = Concatenated target_bundle | PerImage "target_bundle list"

text \<open>
  \<^verbatim>\<open>get_targets\<close>, lines 209 to 241. Unpacking the result of \<^verbatim>\<open>multi_apply\<close> into
  ten names (lines 226 and 227) raises ValueError when there is no image. The arguments
  \<open>gt_bboxes\<close> and \<open>gt_labels\<close> are not read.
\<close>

definition get_targets ::
  "core \<Rightarrow> head \<Rightarrow> sampling_result list \<Rightarrow> 'g \<Rightarrow> 'l \<Rightarrow> train_cfg \<Rightarrow> bool
     \<Rightarrow> error + targets_out" where
  "get_targets K h sampling_results gt_bboxes gt_labels rcnn_train_cfg concat_flag =
     bind_err (multi_apply (\<lambda>res. get_target_single K h (pos_bboxes res) (neg_bboxes res)
                                    (pos_gt_bboxes res) (pos_gt_labels res) rcnn_train_cfg)
                 sampling_results) (\<lambda>outs.
     if outs = [] then Inl ValueError
     else if concat_flag then
       bind_err (cat0 (map labels outs)) (\<lambda>c1.
       bind_err (cat0 (map label_weights outs)) (\<lambda>c2.
       bind_err (cat0 (map bbox_targets outs)) (\<lambda>c3.
       bind_err (cat0 (map bbox_weights outs)) (\<lambda>c4.
       bind_err (cat0 (map bin_cls_targets outs)) (\<lambda>c5.
       bind_err (cat0 (map bin_cls_weights outs)) (\<lambda>c6.
       bind_err (cat0 (map bin_offset_targets outs)) (\<lambda>c7.
       bind_err (cat0 (map bin_offset_weights outs)) (\<lambda>c8.
       bind_err (cat0 (map ratio_targets outs)) (\<lambda>c9.
       bind_err (cat0 (map ratio_weights outs)) (\<lambda>c10.
       Inr (Concatenated
              \<lparr>labels = c1, label_weights = c2, bbox_targets = c3, bbox_weights = c4,
               bin_cls_targets = c5, bin_cls_weights = c6, bin_offset_targets = c7,
               bin_offset_weights = c8, ratio_targets = c9, ratio_weights = c10\<rparr>)
       ))))))))))
     else Inr (PerImage outs))"

text \<open>
  The numbers of positive and negative samples of an image,
  \<^verbatim>\<open>pos_bboxes.size(0)\<close> and \<^verbatim>\<open>neg_bboxes.size(0)\<close>.
\<close>

definition n_pos :: "sampling_result \<Rightarrow> nat" where
  "n_pos r = hd (shape (pos_bboxes r))"

definition n_neg :: "sampling_result \<Rightarrow> nat" where
  "n_neg r = hd (shape (neg_bboxes r))"

text \<open>
  \<open>image_block K h cfg r b\<close>: \<open>b\<close> is the bundle that the per-image routine returns for
  the image \<open>r\<close>, and it consists of the \<open>n_pos r\<close> rows of the positive samples
  (label weight \<open>pos_weight\<close>, box and ratio weights 1) followed by the \<open>n_neg r\<close>
  rows of the negative samples (background label, label weight 1, zeros elsewhere).
\<close>

definition image_block ::
  "core \<Rightarrow> head \<Rightarrow> train_cfg \<Rightarrow> sampling_result \<Rightarrow> target_bundle \<Rightarrow> bool" where
  "image_block K h cfg r b =
     (get_target_single K h (pos_bboxes r) (neg_bboxes r) (pos_gt_bboxes r) (pos_gt_labels r) cfg
        = Inr b \<and>
      (\<exists>L BT BCT BCW BOT BOW RT.
         pos_parts_fit h (n_pos r) L BT BCT BCW BOT BOW RT \<and>
         b = pos_neg_bundle h cfg (n_pos r) (n_neg r) L BT BCT BCW BOT BOW RT))"

text \<open>The rows of the per-image tensors \<open>ts\<close>, joined in the order of the list.\<close>

definition rows_in_order :: "nat \<Rightarrow> nat list \<Rightarrow> 'a tensor list \<Rightarrow> 'a tensor" where
  "rows_in_order n cs ts = \<lparr>shape = n # cs, data = concat (map data ts)\<rparr>"

section \<open>A concrete head\<close>

text \<open>
  A head with the default configuration of the constructor (15 classes, 4 bins, ratio
  threshold 0.8) in class-agnostic mode, and simple collaborators: the box coder encodes a
  ground-truth box as itself and decodes a RoI as itself, the bin coder decodes every box to
  the zero polygon, \<open>hbb2poly_box\<close> lists the corners clockwise from the top-left one.
  It serves to run the methods on concrete inputs.
\<close>

definition sample_core :: core where
  "sample_core =
     \<lparr>bbox2type = (\<lambda>t ty. Inr t),
      hbb2poly_box = (\<lambda>b. case b of [l, t, r, bt] \<Rightarrow> [l, t, r, t, r, bt, l, bt]
                                | _ \<Rightarrow> replicate 8 0),
      accuracy = (\<lambda>s l. Inr 0),
      affine_grid = (\<lambda>theta size. Inr theta),
      grid_sample = (\<lambda>x grid. Inr x)\<rparr>"

definition sample_loss :: regression_loss where
  "sample_loss pred target weight avg_factor reduction_override =
     Inr (sum_list (data pred) / avg_factor)"

definition sample_head :: head where
  "sample_head =
     \<lparr>num_classes = 15, num_bins = 4, reg_class_agnostic = True, ratio_thr = 8 / 10,
      in_channels = 256, roi_feat_area = 49,
      bbox_coder_encode = (\<lambda>rois gt. Inr gt),
      bbox_coder_decode = (\<lambda>rois deltas max_shape. Inr rois),
      bin_coder_encode = (\<lambda>gt. let n = hd (shape gt) in
         Inr (new_zeros [n, 16], new_full [n, 16] 1, new_zeros [n, 4], new_full [n, 4] 1)),
      bin_coder_decode = (\<lambda>bboxes bin_cls bin_offset.
         Inr (new_zeros (butlast (shape bboxes) @ [8]))),
      ratio_coder_encode = (\<lambda>gt. Inr (new_full [hd (shape gt), 1] 1)),
      loss_cls = (\<lambda>score lbl weight avg_factor reduction_override.
         Inr (sum_list (data score) / avg_factor)),
      loss_bbox = sample_loss, loss_bin_cls = sample_loss,
      loss_bin_offset = sample_loss, loss_ratio = sample_loss\<rparr>"

text \<open>Predictions for two RoIs and for none, in class-agnostic layout.\<close>

definition sample_preds :: predictions where
  "sample_preds =
     \<lparr>cls_score = \<lparr>shape = [2, 16], data = replicate 32 0\<rparr>,
      bbox_pred = \<lparr>shape = [2, 4], data = [1, 2, 3, 4, 5, 6, 7, 8]\<rparr>,
      bin_cls_pred = \<lparr>shape = [2, 16], data = replicate 32 0\<rparr>,
      bin_offset_pred = \<lparr>shape = [2, 4], data = replicate 8 0\<rparr>,
      ratio_pred = \<lparr>shape = [2, 1], data = [9 / 10, 1 / 10]\<rparr>\<rparr>"

definition empty_preds :: predictions where
  "empty_preds =
     \<lparr>cls_score = \<lparr>shape = [0, 16], data = []\<rparr>,
      bbox_pred = \<lparr>shape = [0, 4], data = []\<rparr>,
      bin_cls_pred = \<lparr>shape = [0, 16], data = []\<rparr>,
      bin_offset_pred = \<lparr>shape = [0, 4], data = []\<rparr>,
      ratio_pred = \<lparr>shape = [0, 1], data = []\<rparr>\<rparr>"

text \<open>The targets of an image with \<open>nn\<close> negative samples and no positive one.\<close>

definition negatives_only :: "nat \<Rightarrow> target_bundle" where
  "negatives_only nn = pos_neg_bundle sample_head \<lparr>pos_weight = - 1\<rparr> 0 nn [] [] [] [] [] [] []"

text \<open>A class-aware head with two classes and two bins, small enough to list every entry.\<close>

definition small_head :: head where
  "small_head = sample_head\<lparr>num_classes := 2, num_bins := 2, reg_class_agnostic := False\<rparr>"

text \<open>The default configuration in class-aware mode (15 classes, 4 bins).\<close>

definition class_aware_head :: head where
  "class_aware_head = sample_head\<lparr>reg_class_agnostic := False\<rparr>"

text \<open>
  Two images: one with one positive and two negative samples, one with a single negative
  sample.
\<close>

definition sample_image_1 :: sampling_result where
  "sample_image_1 =
     \<lparr>pos_bboxes = \<lparr>shape = [1, 4], data = [0, 0, 10, 10]\<rparr>,
      neg_bboxes = \<lparr>shape = [2, 4], data = [0, 0, 5, 5, 20, 20, 30, 30]\<rparr>,
      pos_gt_bboxes = \<lparr>shape = [1, 4], data = [1, 1, 9, 9]\<rparr>,
      pos_gt_labels = \<lparr>shape = [1], data = [3]\<rparr>\<rparr>"

definition sample_image_2 :: sampling_result where
  "sample_image_2 =
     \<lparr>pos_bboxes = \<lparr>shape = [0, 4], data = []\<rparr>,
      neg_bboxes = \<lparr>shape = [1, 4], data = [2, 2, 4, 4]\<rparr>,
      pos_gt_bboxes = \<lparr>shape = [0, 4], data = []\<rparr>,
      pos_gt_labels = \<lparr>shape = [0], data = []\<rparr>\<rparr>"

text \<open>
  A head for feature maps of 2 channels and \<open>2 \<times> 2\<close> cells, and a number format that
  represents every number up to 65504 in absolute value exactly and overflows beyond
  (the range of half precision).
\<close>

definition warp_head :: head where
  "warp_head = sample_head\<lparr>in_channels := 2, roi_feat_area := 4\<rparr>"

definition sample_rounding :: rounding where
  "sample_rounding r = (if \<bar>r\<bar> \<le> 65504 then Fin r else NonFin)"

text \<open>
  The features of two samples, all finite, and the same with one overflowed entry in the
  second sample.
\<close>

definition finite_features :: "fl tensor" where
  "finite_features =
     \<lparr>shape = [2, 2, 2, 2],
      data = map Fin [1, 2, 3, 4, 5, 6, 7, 8, - 1, - 2, - 3, - 4, 60000, 1 / 2, 0, 9]\<rparr>"

definition overflowed_features :: "fl tensor" where
  "overflowed_features =
     \<lparr>shape = [2, 2, 2, 2],
      data = map Fin [1, 2, 3, 4, 5, 6, 7, 8, - 1, - 2, - 3, - 4] @ [NonFin]
             @ map Fin [1 / 2, 0, 9]\<rparr>"

text \<open>
  The state after training has changed an earlier regressor: weights and bias that are
  neither zero nor the identity.
\<close>

definition trained_state :: head_state where
  "trained_state =
     \<lparr>fc_theta = Some \<lparr>lin_weight = \<lparr>shape = [6, 8], data = replicate 48 (Fin 3)\<rparr>,
                        lin_bias = \<lparr>shape = [6], data = replicate 6 (Fin 2)\<rparr>\<rparr>\<rparr>"

section \<open>Properties of the target assigner\<close>

lemma bind_err_simps [simp]:
  "bind_err (Inl e) f = Inl e" "bind_err (Inr x) f = f x"
  by (simp_all add: bind_err_def)

lemma bind_err_Inr: "bind_err m f = Inr y \<longleftrightarrow> (\<exists>x. m = Inr x \<and> f x = Inr y)"
  by (cases m) simp_all

text \<open>
  Claim C5. For an image with zero positive and zero negative samples the per-image target
  assignment returns (it raises nothing), and every tensor it returns has zero rows and the
  shape of its kind: labels and label weights \<open>(0,)\<close>, box targets and weights \<open>(0, 4)\<close>,
  bin-classification targets and weights \<open>(0, 4 * num_bins)\<close>, bin-offset targets and
  weights \<open>(0, 4)\<close>, ratio targets and weights \<open>(0, 1)\<close>.
\<close>

theorem get_target_single_empty:
  assumes "tsize pos_bbs 0 = Inr 0" and "tsize neg_bbs 0 = Inr 0"
  shows "get_target_single K h pos_bbs neg_bbs pos_gt_bbs pos_gt_lbls cfg =
           Inr \<lparr>labels = \<lparr>shape = [0], data = []\<rparr>,
                label_weights = \<lparr>shape = [0], data = []\<rparr>,
                bbox_targets = \<lparr>shape = [0, 4], data = []\<rparr>,
                bbox_weights = \<lparr>shape = [0, 4], data = []\<rparr>,
                bin_cls_targets = \<lparr>shape = [0, 4 * num_bins h], data = []\<rparr>,
                bin_cls_weights = \<lparr>shape = [0, 4 * num_bins h], data = []\<rparr>,
                bin_offset_targets = \<lparr>shape = [0, 4], data = []\<rparr>,
                bin_offset_weights = \<lparr>shape = [0, 4], data = []\<rparr>,
                ratio_targets = \<lparr>shape = [0, 1], data = []\<rparr>,
                ratio_weights = \<lparr>shape = [0, 1], data = []\<rparr>\<rparr>"
  using assms
  by (simp add: get_target_single_def init_targets_def new_zeros_def new_full_def)

theorem get_target_single_empty_witness:
  "tsize \<lparr>shape = [0, 4], data = ([]::real list)\<rparr> 0 = Inr 0 \<and>
   (\<exists>tb. get_target_single sample_core sample_head
            \<lparr>shape = [0, 4], data = []\<rparr> \<lparr>shape = [0, 4], data = []\<rparr>
            \<lparr>shape = [0, 8], data = []\<rparr> \<lparr>shape = [0], data = []\<rparr>
            \<lparr>pos_weight = - 1\<rparr> = Inr tb
        \<and> shape (bin_cls_targets tb) = [0, 16] \<and> data (bin_cls_targets tb) = [])"
proof -
  have a: "tsize \<lparr>shape = [0, 4], data = ([]::real list)\<rparr> 0 = Inr 0"
    by (simp add: tsize_def)
  show ?thesis
    using a get_target_single_empty [OF a a, of sample_core sample_head
        "\<lparr>shape = [0, 8], data = []\<rparr>" "\<lparr>shape = [0], data = []\<rparr>" "\<lparr>pos_weight = - 1\<rparr>"]
    by (simp add: sample_head_def)
qed

subsection \<open>Broadcasting and slice assignment\<close>

lemma those_Some_length: "those xs = Some ys \<Longrightarrow> length ys = length xs"
  by (induction xs arbitrary: ys) (auto split: option.splits)

lemma those_Some_nth: "those xs = Some ys \<Longrightarrow> i < length xs \<Longrightarrow> xs ! i = Some (ys ! i)"
proof (induction xs arbitrary: ys i)
  case Nil
  then show ?case by simp
next
  case (Cons x xs)
  then show ?case by (cases i) (auto split: option.splits)
qed

lemma length_concat_const:
  "(\<And>y. y \<in> set ys \<Longrightarrow> length y = c) \<Longrightarrow> length (concat ys) = length ys * c"
  by (induction ys) auto

lemma length_concat_replicate: "length (concat (replicate t z)) = t * length z"
  by (induction t) auto

lemma expand_length: "expand vs ts xs = Some ys \<Longrightarrow> length ys = prod_list ts"
proof (induction vs ts xs arbitrary: ys rule: expand.induct)
  case (1 xs)
  then show ?case by (auto split: list.splits)
next
  case (2 v vs t ts xs)
  show ?case
  proof (cases "v = t")
    case True
    with "2.prems" obtain zs where
      zs: "those (map (\<lambda>i. expand vs ts (take (prod_list vs) (drop (i * prod_list vs) xs))) [0..<t]) = Some zs"
      and ys: "ys = concat zs"
      by auto
    have len: "length zs = t" using those_Some_length [OF zs] by simp
    have "length z = prod_list ts" if "z \<in> set zs" for z
    proof -
      from that obtain i where i: "i < t" "z = zs ! i"
        using len by (auto simp: in_set_conv_nth)
      from those_Some_nth [OF zs, of i] i
      have "expand vs ts (take (prod_list vs) (drop (i * prod_list vs) xs)) = Some z"
        by simp
      with "2.IH"(1) [OF True, of i z] i show ?thesis by simp
    qed
    then show ?thesis using ys len by (simp add: length_concat_const)
  next
    case False
    with "2.prems" obtain z where v1: "v = 1" and z: "expand vs ts xs = Some z"
      and ys: "ys = concat (replicate t z)"
      by (auto split: if_splits)
    from "2.IH"(2) [OF False v1 z] have "length z = prod_list ts" .
    then show ?thesis using ys by (simp add: length_concat_replicate)
  qed
qed simp_all

lemma broadcast_to_length: "broadcast_to v tgt = Inr ys \<Longrightarrow> length ys = prod_list tgt"
  by (auto simp: broadcast_to_def Let_def expand_length split: if_splits option.splits)

lemma set_rows_prefix:
  assumes "set_rows (new_full (n # cs) z) 0 np v = Inr t'" and "np \<le> n"
  shows "\<exists>ys. length ys = np * prod_list cs \<and>
              t' = \<lparr>shape = n # cs, data = ys @ replicate ((n - np) * prod_list cs) z\<rparr>"
proof -
  from assms obtain ys where b: "broadcast_to v (np # cs) = Inr ys"
    and t': "t' = \<lparr>shape = n # cs, data = ys @ drop (np * prod_list cs) (replicate (n * prod_list cs) z)\<rparr>"
    by (auto simp: set_rows_def Let_def new_full_def row_len_def bind_err_Inr min_def)
  from broadcast_to_length [OF b] have "length ys = np * prod_list cs" by simp
  then show ?thesis using t' by (simp add: diff_mult_distrib)
qed

lemma fill_rows_prefix:
  "np \<le> n \<Longrightarrow> fill_rows (new_full (n # cs) z) 0 np x =
     \<lparr>shape = n # cs, data = replicate (np * prod_list cs) x @ replicate ((n - np) * prod_list cs) z\<rparr>"
  by (simp add: fill_rows_def Let_def new_full_def row_len_def min_def diff_mult_distrib)

lemma fill_rows_suffix:
  "length xs = np \<Longrightarrow> length ys = nn \<Longrightarrow>
   fill_rows \<lparr>shape = [np + nn], data = xs @ ys\<rparr> np (np + nn) x =
     \<lparr>shape = [np + nn], data = xs @ replicate nn x\<rparr>"
  by (simp add: fill_rows_def Let_def row_len_def)

lemma assign_pos_layout:
  assumes "assign_pos K h np pb pgb pgl cfg (init_targets h (np + nn)) = Inr b"
  shows "\<exists>L BT BCT BCW BOT BOW RT.
           length L = np \<and> length BT = np * 4 \<and> length BCT = np * (4 * num_bins h) \<and>
           length BCW = np * (4 * num_bins h) \<and> length BOT = np * 4 \<and>
           length BOW = np * 4 \<and> length RT = np \<and>
           b = \<lparr>labels = \<lparr>shape = [np + nn], data = L @ replicate nn (int (num_classes h))\<rparr>,
                label_weights = \<lparr>shape = [np + nn],
                   data = replicate np (if pos_weight cfg \<le> 0 then 1 else pos_weight cfg)
                          @ replicate nn 0\<rparr>,
                bbox_targets = \<lparr>shape = [np + nn, 4], data = BT @ replicate (nn * 4) 0\<rparr>,
                bbox_weights = \<lparr>shape = [np + nn, 4],
                   data = replicate (np * 4) 1 @ replicate (nn * 4) 0\<rparr>,
                bin_cls_targets = \<lparr>shape = [np + nn, 4 * num_bins h],
                   data = BCT @ replicate (nn * (4 * num_bins h)) 0\<rparr>,
                bin_cls_weights = \<lparr>shape = [np + nn, 4 * num_bins h],
                   data = BCW @ replicate (nn * (4 * num_bins h)) 0\<rparr>,
                bin_offset_targets = \<lparr>shape = [np + nn, 4], data = BOT @ replicate (nn * 4) 0\<rparr>,
                bin_offset_weights = \<lparr>shape = [np + nn, 4], data = BOW @ replicate (nn * 4) 0\<rparr>,
                ratio_targets = \<lparr>shape = [np + nn, 1], data = RT @ replicate nn 0\<rparr>,
                ratio_weights = \<lparr>shape = [np + nn, 1],
                   data = replicate np 1 @ replicate nn 0\<rparr>\<rparr>"
proof -
  from assms obtain v1 v2 v3 v4 v5 v6 v7 lbls bt bct bcw bot bow rt where
    s1: "set_rows (new_full [np + nn] (int (num_classes h))) 0 np v1 = Inr lbls" and
    s2: "set_rows (new_full [np + nn, 4] (0::real)) 0 np v2 = Inr bt" and
    s3: "set_rows (new_full [np + nn, 4 * num_bins h] (0::real)) 0 np v3 = Inr bct" and
    s4: "set_rows (new_full [np + nn, 4 * num_bins h] (0::real)) 0 np v4 = Inr bcw" and
    s5: "set_rows (new_full [np + nn, 4] (0::real)) 0 np v5 = Inr bot" and
    s6: "set_rows (new_full [np + nn, 4] (0::real)) 0 np v6 = Inr bow" and
    s7: "set_rows (new_full [np + nn, 1] (0::real)) 0 np v7 = Inr rt" and
    b: "b = \<lparr>labels = lbls,
             label_weights = fill_rows (new_full [np + nn] 0) 0 np
                (if pos_weight cfg \<le> 0 then 1 else pos_weight cfg),
             bbox_targets = bt,
             bbox_weights = fill_rows (new_full [np + nn, 4] 0) 0 np 1,
             bin_cls_targets = bct, bin_cls_weights = bcw,
             bin_offset_targets = bot, bin_offset_weights = bow,
             ratio_targets = rt,
             ratio_weights = fill_rows (new_full [np + nn, 1] 0) 0 np 1\<rparr>"
    by (auto simp: assign_pos_def init_targets_def new_zeros_def Let_def bind_err_Inr
        split: prod.splits)
  have le: "np \<le> np + nn" by simp
  from set_rows_prefix [OF s1 le] set_rows_prefix [OF s2 le] set_rows_prefix [OF s3 le]
    set_rows_prefix [OF s4 le] set_rows_prefix [OF s5 le] set_rows_prefix [OF s6 le]
    set_rows_prefix [OF s7 le]
  show ?thesis
    unfolding b by (simp add: fill_rows_prefix) blast
qed

lemma get_target_single_layout:
  assumes "get_target_single K h pb nb pgb pgl cfg = Inr b"
  shows "\<exists>np nn L BT BCT BCW BOT BOW RT.
           tsize pb 0 = Inr np \<and> tsize nb 0 = Inr nn \<and>
           pos_parts_fit h np L BT BCT BCW BOT BOW RT \<and>
           b = pos_neg_bundle h cfg np nn L BT BCT BCW BOT BOW RT"
proof -
  from assms obtain np nn tb where
    np: "tsize pb 0 = Inr np" and nn: "tsize nb 0 = Inr nn" and
    tb: "(if np > 0 then assign_pos K h np pb pgb pgl cfg (init_targets h (np + nn))
          else Inr (init_targets h (np + nn))) = Inr tb" and
    b: "b = (if nn > 0
             then tb\<lparr>label_weights := fill_rows (label_weights tb) (np + nn - nn) (np + nn) 1\<rparr>
             else tb)"
    by (auto simp: get_target_single_def Let_def bind_err_Inr)
  have "\<exists>L BT BCT BCW BOT BOW RT.
           pos_parts_fit h np L BT BCT BCW BOT BOW RT \<and>
           tb\<lparr>label_weights := \<lparr>shape = [np + nn],
                 data = replicate np (if pos_weight cfg \<le> 0 then 1 else pos_weight cfg)
                        @ replicate nn 1\<rparr>\<rparr>
             = pos_neg_bundle h cfg np nn L BT BCT BCW BOT BOW RT \<and>
           label_weights tb = \<lparr>shape = [np + nn],
                 data = replicate np (if pos_weight cfg \<le> 0 then 1 else pos_weight cfg)
                        @ replicate nn 0\<rparr>"
  proof (cases "np > 0")
    case True
    with tb have "assign_pos K h np pb pgb pgl cfg (init_targets h (np + nn)) = Inr tb"
      by simp
    from assign_pos_layout [OF this] show ?thesis
      unfolding pos_parts_fit_def pos_neg_bundle_def by auto
  next
    case False
    with tb have "tb = init_targets h (np + nn)" "np = 0" by simp_all
    then show ?thesis
      unfolding pos_parts_fit_def pos_neg_bundle_def
      by (simp add: init_targets_def new_zeros_def new_full_def)
  qed
  then obtain L BT BCT BCW BOT BOW RT where
    fit: "pos_parts_fit h np L BT BCT BCW BOT BOW RT" and
    eq: "tb\<lparr>label_weights := \<lparr>shape = [np + nn],
                 data = replicate np (if pos_weight cfg \<le> 0 then 1 else pos_weight cfg)
                        @ replicate nn 1\<rparr>\<rparr>
             = pos_neg_bundle h cfg np nn L BT BCT BCW BOT BOW RT" and
    lw: "label_weights tb = \<lparr>shape = [np + nn],
                 data = replicate np (if pos_weight cfg \<le> 0 then 1 else pos_weight cfg)
                        @ replicate nn 0\<rparr>"
    by blast
  have "b = pos_neg_bundle h cfg np nn L BT BCT BCW BOT BOW RT"
  proof (cases "nn > 0")
    case True
    then show ?thesis using b eq lw by (simp add: fill_rows_suffix)
  next
    case False
    then have "nn = 0" by simp
    with b eq lw show ?thesis by (cases tb) (simp add: pos_neg_bundle_def)
  qed
  with np nn fit show ?thesis by blast
qed

lemma row_neg:
  assumes "shape t = (np + nn) # cs" and "data t = P @ replicate (nn * c) nv"
    and "c = prod_list cs" and "length P = np * c" and "np \<le> i" and "i < np + nn"
  shows "row t i = replicate c nv"
proof -
  from assms(5,6) have "\<exists>d. i = np + d \<and> d < nn"
    by presburger
  then obtain d where i: "i = np + d" and d: "d < nn" by blast
  from d have "\<exists>e. nn = d + Suc e" by presburger
  then obtain e where nn: "nn = d + Suc e" by blast
  have "i * c = length P + d * c"
    using assms(4) by (simp add: i add_mult_distrib)
  then have "drop (i * c) (data t) = drop (d * c) (replicate (nn * c) nv)"
    using assms(2) by simp
  also have "\<dots> = replicate (Suc e * c) nv"
    by (simp add: nn add_mult_distrib)
  finally show ?thesis
    using assms(1,3) by (simp add: row_def row_len_def)
qed

subsection \<open>Negative samples\<close>

text \<open>
  Claim C4. In the bundle returned for one image, every row of a negative sample (the rows
  from \<open>num_pos\<close> up to \<open>num_pos + num_neg\<close>) has the background class id
  \<open>num_classes\<close> as its label, label weight 1, and zeros as its box, bin-classification,
  bin-offset and ratio targets and weights.
\<close>

theorem negative_samples_background:
  assumes "get_target_single K h pos_bbs neg_bbs pos_gt_bbs pos_gt_lbls cfg = Inr tb"
    and "tsize pos_bbs 0 = Inr num_pos" and "tsize neg_bbs 0 = Inr num_neg"
    and "num_pos \<le> i" and "i < num_pos + num_neg"
  shows "row (labels tb) i = [int (num_classes h)] \<and>
         row (label_weights tb) i = [1] \<and>
         row (bbox_targets tb) i = replicate 4 0 \<and>
         row (bbox_weights tb) i = replicate 4 0 \<and>
         row (bin_cls_targets tb) i = replicate (4 * num_bins h) 0 \<and>
         row (bin_cls_weights tb) i = replicate (4 * num_bins h) 0 \<and>
         row (bin_offset_targets tb) i = replicate 4 0 \<and>
         row (bin_offset_weights tb) i = replicate 4 0 \<and>
         row (ratio_targets tb) i = [0] \<and>
         row (ratio_weights tb) i = [0]"
proof -
  from get_target_single_layout [OF assms(1)] assms(2,3)
  obtain L BT BCT BCW BOT BOW RT where
    fit: "pos_parts_fit h num_pos L BT BCT BCW BOT BOW RT" and
    tb: "tb = pos_neg_bundle h cfg num_pos num_neg L BT BCT BCW BOT BOW RT"
    by auto
  note r = row_neg [where np = num_pos and nn = num_neg and i = i, OF _ _ _ _ assms(4,5)]
  have 1: "row (labels tb) i = replicate 1 (int (num_classes h))"
    by (rule r [where cs = "[]" and P = L]) (use fit in \<open>simp_all add: tb pos_neg_bundle_def pos_parts_fit_def\<close>)
  have 2: "row (label_weights tb) i = replicate 1 1"
    by (rule r [where cs = "[]"
          and P = "replicate num_pos (if pos_weight cfg \<le> 0 then 1 else pos_weight cfg)"])
       (simp_all add: tb pos_neg_bundle_def)
  have 3: "row (bbox_targets tb) i = replicate 4 0"
    by (rule r [where cs = "[4]" and P = BT]) (use fit in \<open>simp_all add: tb pos_neg_bundle_def pos_parts_fit_def\<close>)
  have 4: "row (bbox_weights tb) i = replicate 4 0"
    by (rule r [where cs = "[4]" and P = "replicate (num_pos * 4) 1"])
       (simp_all add: tb pos_neg_bundle_def)
  have 5: "row (bin_cls_targets tb) i = replicate (4 * num_bins h) 0"
    by (rule r [where cs = "[4 * num_bins h]" and P = BCT])
       (use fit in \<open>simp_all add: tb pos_neg_bundle_def pos_parts_fit_def\<close>)
  have 6: "row (bin_cls_weights tb) i = replicate (4 * num_bins h) 0"
    by (rule r [where cs = "[4 * num_bins h]" and P = BCW])
       (use fit in \<open>simp_all add: tb pos_neg_bundle_def pos_parts_fit_def\<close>)
  have 7: "row (bin_offset_targets tb) i = replicate 4 0"
    by (rule r [where cs = "[4]" and P = BOT]) (use fit in \<open>simp_all add: tb pos_neg_bundle_def pos_parts_fit_def\<close>)
  have 8: "row (bin_offset_weights tb) i = replicate 4 0"
    by (rule r [where cs = "[4]" and P = BOW]) (use fit in \<open>simp_all add: tb pos_neg_bundle_def pos_parts_fit_def\<close>)
  have 9: "row (ratio_targets tb) i = replicate 1 0"
    by (rule r [where cs = "[1]" and P = RT]) (use fit in \<open>simp_all add: tb pos_neg_bundle_def pos_parts_fit_def\<close>)
  have 10: "row (ratio_weights tb) i = replicate 1 0"
    by (rule r [where cs = "[1]" and P = "replicate num_pos 1"])
       (simp_all add: tb pos_neg_bundle_def)
  from 1 2 3 4 5 6 7 8 9 10 show ?thesis by simp
qed

lemma sample_run:
  "get_target_single sample_core sample_head
      \<lparr>shape = [1, 4], data = [0, 0, 10, 10]\<rparr>
      \<lparr>shape = [2, 4], data = [0, 0, 5, 5, 20, 20, 30, 30]\<rparr>
      \<lparr>shape = [1, 4], data = [1, 1, 9, 9]\<rparr>
      \<lparr>shape = [1], data = [3]\<rparr> \<lparr>pos_weight = - 1\<rparr>
   = Inr (pos_neg_bundle sample_head \<lparr>pos_weight = - 1\<rparr> 1 2 [3] [1, 1, 9, 9]
            (replicate 16 0) (replicate 16 1) (replicate 4 0) (replicate 4 1) [1])"
  by (simp add: get_target_single_def assign_pos_def init_targets_def tsize_def
      sample_core_def sample_head_def pos_neg_bundle_def set_rows_def fill_rows_def
      broadcast_to_def new_zeros_def new_full_def row_len_def Let_def upt_rec
      numeral_eq_Suc)

theorem negative_samples_background_witness:
  "get_target_single sample_core sample_head
      \<lparr>shape = [1, 4], data = [0, 0, 10, 10]\<rparr>
      \<lparr>shape = [2, 4], data = [0, 0, 5, 5, 20, 20, 30, 30]\<rparr>
      \<lparr>shape = [1, 4], data = [1, 1, 9, 9]\<rparr>
      \<lparr>shape = [1], data = [3]\<rparr> \<lparr>pos_weight = - 1\<rparr>
     = Inr (pos_neg_bundle sample_head \<lparr>pos_weight = - 1\<rparr> 1 2 [3] [1, 1, 9, 9]
            (replicate 16 0) (replicate 16 1) (replicate 4 0) (replicate 4 1) [1]) \<and>
   tsize \<lparr>shape = [1, 4], data = [0, 0, 10, 10 :: real]\<rparr> 0 = Inr 1 \<and>
   tsize \<lparr>shape = [2, 4], data = [0, 0, 5, 5, 20, 20, 30, 30 :: real]\<rparr> 0 = Inr 2 \<and>
   (1::nat) \<le> 2 \<and> (2::nat) < 1 + 2 \<and>
   row (labels (pos_neg_bundle sample_head \<lparr>pos_weight = - 1\<rparr> 1 2 [3] [1, 1, 9, 9]
            (replicate 16 0) (replicate 16 1) (replicate 4 0) (replicate 4 1) [1])) 2 = [15] \<and>
   row (label_weights (pos_neg_bundle sample_head \<lparr>pos_weight = - 1\<rparr> 1 2 [3] [1, 1, 9, 9]
            (replicate 16 0) (replicate 16 1) (replicate 4 0) (replicate 4 1) [1])) 2 = [1] \<and>
   row (bin_cls_weights (pos_neg_bundle sample_head \<lparr>pos_weight = - 1\<rparr> 1 2 [3] [1, 1, 9, 9]
            (replicate 16 0) (replicate 16 1) (replicate 4 0) (replicate 4 1) [1])) 2
     = replicate 16 0"
proof -
  have p: "tsize \<lparr>shape = [1, 4], data = [0, 0, 10, 10 :: real]\<rparr> 0 = Inr 1"
    by (simp add: tsize_def)
  have n: "tsize \<lparr>shape = [2, 4], data = [0, 0, 5, 5, 20, 20, 30, 30 :: real]\<rparr> 0 = Inr 2"
    by (simp add: tsize_def)
  have i: "(1::nat) \<le> 2" "(2::nat) < 1 + 2" by simp_all
  have nc: "num_classes sample_head = 15" "num_bins sample_head = 4"
    by (simp_all add: sample_head_def)
  from negative_samples_background [OF sample_run p n i] sample_run p n i nc
  show ?thesis by simp
qed

section \<open>Properties of the refiner\<close>

text \<open>
  Claim C8. When the RoIs have a column count that is neither 4 nor 5,
  \<^verbatim>\<open>regress_by_class\<close> fails with the assertion of its first line, whatever the head, the
  collaborators and the other arguments are: nothing is decoded or gathered before, and no
  result is produced.
\<close>

theorem regress_by_class_bad_columns:
  assumes "tsize rois 1 = Inr c" and "c \<noteq> 4" and "c \<noteq> 5"
  shows "regress_by_class K h rois label bbox_p bin_cls_p bin_offset_p ratio_p meta
           = Inl AssertionError"
  using assms by (simp add: regress_by_class_def)

theorem regress_by_class_bad_columns_witness:
  "tsize \<lparr>shape = [1, 3], data = [0, 0, 1 :: real]\<rparr> 1 = Inr 3 \<and> (3::nat) \<noteq> 4 \<and> (3::nat) \<noteq> 5 \<and>
   regress_by_class sample_core sample_head \<lparr>shape = [1, 3], data = [0, 0, 1]\<rparr>
     \<lparr>shape = [1], data = [0]\<rparr> \<lparr>shape = [1, 4], data = [0, 0, 0, 0]\<rparr>
     \<lparr>shape = [1, 16], data = replicate 16 0\<rparr> \<lparr>shape = [1, 4], data = [0, 0, 0, 0]\<rparr>
     \<lparr>shape = [1, 1], data = [1 / 2]\<rparr> \<lparr>img_shape = [100, 100]\<rparr> = Inl AssertionError"
proof -
  have a: "tsize \<lparr>shape = [1, 3], data = [0, 0, 1 :: real]\<rparr> 1 = Inr 3"
    by (simp add: tsize_def)
  have b: "(3::nat) \<noteq> 4" "(3::nat) \<noteq> 5" by simp_all
  from regress_by_class_bad_columns [OF a b] a b show ?thesis by simp
qed

lemma regress_by_class_no_columns:
  "length (shape rois) < 2 \<Longrightarrow>
   regress_by_class K h rois label bbox_p bin_cls_p bin_offset_p ratio_p meta = Inl IndexError"
  by (simp add: regress_by_class_def tsize_def)

section \<open>Properties of the loss\<close>

lemma loss_cls_part_dom:
  "loss_cls_part K h P T ro = Inr m \<Longrightarrow>
   dom m = (if numel (cls_score P) > 0 then {''loss_cls'', ''acc''} else {})"
  by (auto simp: loss_cls_part_def Let_def bind_err_Inr split: if_splits)

lemma loss_pos_part_dom:
  "loss_pos_part h P T ro m = Inr m' \<Longrightarrow>
   dom m' = dom m \<union> {''loss_bbox'', ''loss_bin_cls'', ''loss_bin_offset'', ''loss_ratio''}"
  unfolding loss_pos_part_def Let_def bind_err_Inr by auto

text \<open>
  Claim C10. The dictionary returned by \<^verbatim>\<open>loss\<close> always holds the four regression
  losses; it holds the classification loss and the accuracy exactly when the
  classification scores have at least one element. In particular an empty score tensor
  gives neither \<open>loss_cls\<close> nor \<open>acc\<close>.
\<close>

theorem loss_keys:
  assumes "loss K h P rois T reduction_override = Inr losses"
  shows "dom losses =
           (if numel (cls_score P) > 0 then {''loss_cls'', ''acc''} else {})
           \<union> {''loss_bbox'', ''loss_bin_cls'', ''loss_bin_offset'', ''loss_ratio''}"
proof -
  from assms obtain m where m: "loss_cls_part K h P T reduction_override = Inr m"
    and r: "(if any_true (pos_inds h (labels T))
             then loss_pos_part h P T reduction_override m
             else Inr (m(''loss_bbox'' \<mapsto> sum_list (data (bbox_pred P)) * 0,
                        ''loss_bin_cls'' \<mapsto> sum_list (data (bin_cls_pred P)) * 0,
                        ''loss_bin_offset'' \<mapsto> sum_list (data (bin_offset_pred P)) * 0,
                        ''loss_ratio'' \<mapsto> sum_list (data (ratio_pred P)) * 0))) = Inr losses"
    by (auto simp: loss_def bind_err_Inr)
  have "dom losses = dom m \<union> {''loss_bbox'', ''loss_bin_cls'', ''loss_bin_offset'', ''loss_ratio''}"
  proof (cases "any_true (pos_inds h (labels T))")
    case True
    with r show ?thesis by (simp add: loss_pos_part_dom)
  next
    case False
    with r show ?thesis by auto
  qed
  with loss_cls_part_dom [OF m] show ?thesis by simp
qed

lemma empty_loss:
  "loss sample_core sample_head empty_preds \<lparr>shape = [0, 5], data = []\<rparr> (negatives_only 0) None
     = Inr [''loss_bbox'' \<mapsto> 0, ''loss_bin_cls'' \<mapsto> 0, ''loss_bin_offset'' \<mapsto> 0,
            ''loss_ratio'' \<mapsto> 0]"
  by (simp add: loss_def loss_cls_part_def negatives_only_def pos_neg_bundle_def
      sample_head_def empty_preds_def numel_def any_true_def pos_inds_def)

theorem loss_keys_witness:
  "numel (cls_score empty_preds) = 0 \<and>
   loss sample_core sample_head empty_preds \<lparr>shape = [0, 5], data = []\<rparr> (negatives_only 0) None
     = Inr [''loss_bbox'' \<mapsto> 0, ''loss_bin_cls'' \<mapsto> 0, ''loss_bin_offset'' \<mapsto> 0,
            ''loss_ratio'' \<mapsto> 0] \<and>
   dom [''loss_bbox'' \<mapsto> 0 :: real, ''loss_bin_cls'' \<mapsto> 0, ''loss_bin_offset'' \<mapsto> 0,
        ''loss_ratio'' \<mapsto> 0]
     = {''loss_bbox'', ''loss_bin_cls'', ''loss_bin_offset'', ''loss_ratio''}"
proof -
  have n: "numel (cls_score empty_preds) = 0"
    by (simp add: empty_preds_def numel_def)
  from loss_keys [OF empty_loss] n empty_loss show ?thesis by simp
qed

section \<open>The refiner at concrete inputs\<close>

lemmas tensor_eval =
  tsize_def numel_def view2_def gather1_def unsqueeze1_def class_inds_def squeeze1_def
  gt_mask_def count_true_def mask_select_def mask_assign_def cols_from1_def col0_def cat1_def
  hbb2poly_def assert_size1_def broadcast_to_def new_zeros_def new_full_def
  view_shape_def view3_def index_rows_classes_def pos_inds_def
  Let_def upt_rec numeral_eq_Suc

text \<open>
  Claim C1, at a failing input. The head is class-agnostic, the two RoIs have the ratio
  predictions 0.9 and 0.1 and the threshold is 0.8, so the claim asks for the corners of the
  first decoded box and the bin-decoded polygon of the second. \<^verbatim>\<open>regress_by_class\<close>
  assigns \<^verbatim>\<open>hbb2poly(bboxes)\<close>, the corners of both boxes, to the one selected row
  (lines 465 and 471), which does not broadcast: the call raises, for the 4-column and for the
  5-column input alike. \<^verbatim>\<open>get_bboxes\<close> masks the right-hand side as well (line 357).
\<close>

theorem regress_by_class_mixed_ratio_raises:
  "regress_by_class sample_core sample_head
     \<lparr>shape = [2, 4], data = [0, 0, 10, 10, 0, 0, 20, 20]\<rparr> \<lparr>shape = [2], data = [0, 0]\<rparr>
     (bbox_pred sample_preds) (bin_cls_pred sample_preds) (bin_offset_pred sample_preds)
     (ratio_pred sample_preds) \<lparr>img_shape = [100, 100]\<rparr> = Inl RuntimeError \<and>
   regress_by_class sample_core sample_head
     \<lparr>shape = [2, 5], data = [0, 0, 0, 10, 10, 0, 0, 0, 20, 20]\<rparr> \<lparr>shape = [2], data = [0, 0]\<rparr>
     (bbox_pred sample_preds) (bin_cls_pred sample_preds) (bin_offset_pred sample_preds)
     (ratio_pred sample_preds) \<lparr>img_shape = [100, 100]\<rparr> = Inl RuntimeError"
  by (simp add: regress_by_class_def sample_head_def sample_core_def sample_preds_def tensor_eval)

text \<open>
  Claim C2, at failing inputs. For the class-aware head with two classes and two bins, two
  samples with the labels 1 and 0, and a bin-classification prediction whose 2 x 16 entries
  are 0, 1, ..., 31: the loss selects for each sample the 8 contiguous values of its class
  (8..15 of the first row, 16..23 in all for the second). \<^verbatim>\<open>regress_by_class\<close> views the
  prediction as rows of \<open>4 * num_classes\<close> entries (line 447) and gathers 4 values for
  each sample, from rows that mix samples and bins; the final view packs them into a single
  row 4, ..., 11. With the default 15 classes and 4 bins and one sample, the 4 gathered
  values cannot be viewed as rows of 16 and the call raises.
\<close>

theorem class_gather_differs_from_loss_selection:
  "gather_by_class small_head \<lparr>shape = [2], data = [1, 0]\<rparr>
      \<lparr>shape = [2, 8], data = replicate 16 0\<rparr>
      \<lparr>shape = [2, 16],
       data = [0, 1, 2, 3, 4, 5, 6, 7, 8, 9, 10, 11, 12, 13, 14, 15,
               16, 17, 18, 19, 20, 21, 22, 23, 24, 25, 26, 27, 28, 29, 30, 31]\<rparr>
      \<lparr>shape = [2, 8], data = replicate 16 0\<rparr>
      \<lparr>shape = [2, 2], data = [1, 0, 0, 1]\<rparr>
    = Inr (\<lparr>shape = [2, 4], data = replicate 8 0\<rparr>,
           \<lparr>shape = [1, 8], data = [4, 5, 6, 7, 8, 9, 10, 11]\<rparr>,
           \<lparr>shape = [2, 4], data = replicate 8 0\<rparr>,
           \<lparr>shape = [2, 1], data = [0, 0]\<rparr>) \<and>
   select_pos_class small_head
      \<lparr>shape = [2, 16],
       data = [0, 1, 2, 3, 4, 5, 6, 7, 8, 9, 10, 11, 12, 13, 14, 15,
               16, 17, 18, 19, 20, 21, 22, 23, 24, 25, 26, 27, 28, 29, 30, 31]\<rparr>
      \<lparr>shape = [2], data = [1, 0]\<rparr> 8
    = Inr \<lparr>shape = [2, 8],
           data = [8, 9, 10, 11, 12, 13, 14, 15, 16, 17, 18, 19, 20, 21, 22, 23]\<rparr> \<and>
   gather_by_class class_aware_head \<lparr>shape = [1], data = [0]\<rparr>
      \<lparr>shape = [1, 60], data = replicate 60 0\<rparr>
      \<lparr>shape = [1, 240], data = replicate 240 0\<rparr>
      \<lparr>shape = [1, 60], data = replicate 60 0\<rparr>
      \<lparr>shape = [1, 15], data = replicate 15 0\<rparr>
    = Inl RuntimeError"
  by code_simp

section \<open>Properties of the batch targets\<close>

lemma multi_apply_Inr:
  "multi_apply f xs = Inr ys \<Longrightarrow>
   length ys = length xs \<and> (\<forall>k<length xs. f (xs ! k) = Inr (ys ! k))"
proof (induction xs arbitrary: ys)
  case Nil
  then show ?case by simp
next
  case (Cons x xs)
  from Cons.prems obtain y zs where y: "f x = Inr y" and zs: "multi_apply f xs = Inr zs"
    and ys: "ys = y # zs"
    by (auto simp: bind_err_Inr)
  from Cons.IH [OF zs] have l: "length zs = length xs"
    and n: "\<forall>k<length xs. f (xs ! k) = Inr (zs ! k)" by simp_all
  show ?case
  proof (intro conjI allI impI)
    show "length ys = length (x # xs)" using l ys by simp
  next
    fix k assume "k < length (x # xs)"
    then show "f ((x # xs) ! k) = Inr (ys ! k)"
      using y n ys by (cases k) simp_all
  qed
qed

lemma filter_skip_empty:
  assumes "\<forall>t\<in>set ts. shape t = [0] \<longrightarrow> data t = []"
  shows "concat (map data (filter (\<lambda>t. shape t \<noteq> [0]) ts)) = concat (map data ts)"
    and "sum_list (map (\<lambda>t. hd (shape t)) (filter (\<lambda>t. shape t \<noteq> [0]) ts))
           = sum_list (map (\<lambda>t. hd (shape t)) ts)"
  using assms by (induction ts) auto

lemma sum_hd_zero:
  "(\<And>t. t \<in> set ts \<Longrightarrow> shape t = [0]) \<Longrightarrow> sum_list (map (\<lambda>t. hd (shape t)) ts) = 0"
proof (induction ts)
  case Nil
  show ?case by simp
next
  case (Cons a ts)
  have a: "shape a = [0]" by (rule Cons.prems) simp
  have ih: "sum_list (map (\<lambda>t. hd (shape t)) ts) = 0"
    by (rule Cons.IH, rule Cons.prems) simp
  show ?case by (simp add: a ih)
qed

lemma concat_data_empty:
  "(\<And>t. t \<in> set ts \<Longrightarrow> data t = []) \<Longrightarrow> concat (map data ts) = []"
proof (induction ts)
  case Nil
  show ?case by simp
next
  case (Cons a ts)
  have a: "data a = []" by (rule Cons.prems) simp
  have ih: "concat (map data ts) = []"
    by (rule Cons.IH, rule Cons.prems) simp
  show ?case by (simp add: a ih)
qed

lemma cat0_rows:
  assumes ne: "ts \<noteq> []"
    and sh: "\<forall>t\<in>set ts. shape t \<noteq> [] \<and> tl (shape t) = cs"
    and em: "\<forall>t\<in>set ts. shape t = [0] \<longrightarrow> data t = []"
  shows "cat0 ts = Inr (rows_in_order (sum_list (map (\<lambda>t. hd (shape t)) ts)) cs ts)"
proof (cases "filter (\<lambda>t. shape t \<noteq> [0]) ts")
  case Nil
  then have all0: "\<forall>t\<in>set ts. shape t = [0]"
    by (simp add: filter_empty_conv)
  from ne obtain t where t: "t \<in> set ts" by (cases ts) auto
  from t all0 have "shape t = [0]" by blast
  moreover from t sh have "tl (shape t) = cs" by blast
  ultimately have cs: "cs = []" by simp
  from all0 have s0: "sum_list (map (\<lambda>t. hd (shape t)) ts) = 0"
    by (intro sum_hd_zero) blast
  from all0 em have "\<And>t. t \<in> set ts \<Longrightarrow> data t = []" by blast
  then have d0: "concat (map data ts) = []"
    by (rule concat_data_empty)
  have "cat0 ts = Inr \<lparr>shape = [0], data = []\<rparr>"
    using ne Nil by (simp add: cat0_def)
  then show ?thesis
    by (simp add: rows_in_order_def cs s0 d0)
next
  case (Cons u us)
  have "set (filter (\<lambda>t. shape t \<noteq> [0]) ts) \<subseteq> set ts" by simp
  then have sub: "set (u # us) \<subseteq> set ts"
    by (simp only: Cons)
  then have uin: "u \<in> set ts" by simp
  from uin sh have u: "tl (shape u) = cs" by blast
  have all: "list_all (\<lambda>t. shape t \<noteq> [] \<and> tl (shape t) = tl (shape u)) (u # us)"
    unfolding list_all_iff u using sub sh by blast
  have c: "concat (map data (u # us)) = concat (map data ts)"
    using filter_skip_empty(1) [OF em] by (simp only: Cons)
  have n: "sum_list (map (\<lambda>t. hd (shape t)) (u # us)) = sum_list (map (\<lambda>t. hd (shape t)) ts)"
    using filter_skip_empty(2) [OF em] by (simp only: Cons)
  have "cat0 ts = (if list_all (\<lambda>t. shape t \<noteq> [] \<and> tl (shape t) = tl (shape u)) (u # us)
               then Inr \<lparr>shape = sum_list (map (\<lambda>t. hd (shape t)) (u # us)) # tl (shape u),
                         data = concat (map data (u # us))\<rparr>
               else Inl RuntimeError)"
    unfolding cat0_def using ne by (simp only: Cons list.case if_False)
  then have "cat0 ts = Inr \<lparr>shape = sum_list (map (\<lambda>t. hd (shape t)) (u # us)) # tl (shape u),
                         data = concat (map data (u # us))\<rparr>"
    by (simp only: all if_True)
  then show ?thesis
    by (simp only: c n u rows_in_order_def)
qed

lemma cat0_field:
  assumes ne: "outs \<noteq> []"
    and sh: "\<And>b. b \<in> set outs \<Longrightarrow> shape (f b) = g b # cs"
    and em: "\<And>b. b \<in> set outs \<Longrightarrow> shape (f b) = [0] \<Longrightarrow> data (f b) = []"
    and total: "sum_list (map g outs) = N"
  shows "cat0 (map f outs) = Inr (rows_in_order N cs (map f outs))"
proof -
  have 1: "map f outs \<noteq> []" using ne by simp
  have 2: "\<forall>t\<in>set (map f outs). shape t \<noteq> [] \<and> tl (shape t) = cs"
  proof
    fix t assume "t \<in> set (map f outs)"
    then obtain b where b: "b \<in> set outs" and t: "t = f b" by auto
    show "shape t \<noteq> [] \<and> tl (shape t) = cs"
      by (simp add: t sh [OF b])
  qed
  have 3: "\<forall>t\<in>set (map f outs). shape t = [0] \<longrightarrow> data t = []"
  proof
    fix t assume "t \<in> set (map f outs)"
    then obtain b where b: "b \<in> set outs" and t: "t = f b" by auto
    show "shape t = [0] \<longrightarrow> data t = []"
      unfolding t using em [OF b] by blast
  qed
  have "map (\<lambda>t. hd (shape t)) (map f outs) = map g outs"
    unfolding map_map by (rule map_cong [OF refl]) (simp add: sh)
  then have 4: "sum_list (map (\<lambda>t. hd (shape t)) (map f outs)) = N"
    using total by (simp only:)
  from cat0_rows [OF 1 2 3] show ?thesis
    by (simp only: 4)
qed

lemma image_block_I:
  assumes "get_target_single K h (pos_bboxes r) (neg_bboxes r) (pos_gt_bboxes r)
             (pos_gt_labels r) cfg = Inr b"
  shows "image_block K h cfg r b"
proof -
  from get_target_single_layout [OF assms] obtain np nn L BT BCT BCW BOT BOW RT where
    np: "tsize (pos_bboxes r) 0 = Inr np" and nn: "tsize (neg_bboxes r) 0 = Inr nn" and
    fit: "pos_parts_fit h np L BT BCT BCW BOT BOW RT" and
    b: "b = pos_neg_bundle h cfg np nn L BT BCT BCW BOT BOW RT"
    by blast
  from np have p: "n_pos r = np"
    by (simp add: tsize_def n_pos_def hd_conv_nth split: if_splits)
  from nn have n: "n_neg r = nn"
    by (simp add: tsize_def n_neg_def hd_conv_nth split: if_splits)
  show ?thesis
    unfolding image_block_def p n using assms fit b by blast
qed

lemma image_block_fields:
  assumes "image_block K h cfg r b"
  shows "shape (labels b) = (n_pos r + n_neg r) # []"
    and "shape (label_weights b) = (n_pos r + n_neg r) # []"
    and "shape (bbox_targets b) = (n_pos r + n_neg r) # [4]"
    and "shape (bbox_weights b) = (n_pos r + n_neg r) # [4]"
    and "shape (bin_cls_targets b) = (n_pos r + n_neg r) # [4 * num_bins h]"
    and "shape (bin_cls_weights b) = (n_pos r + n_neg r) # [4 * num_bins h]"
    and "shape (bin_offset_targets b) = (n_pos r + n_neg r) # [4]"
    and "shape (bin_offset_weights b) = (n_pos r + n_neg r) # [4]"
    and "shape (ratio_targets b) = (n_pos r + n_neg r) # [1]"
    and "shape (ratio_weights b) = (n_pos r + n_neg r) # [1]"
    and "shape (labels b) = [0] \<Longrightarrow> data (labels b) = []"
    and "shape (label_weights b) = [0] \<Longrightarrow> data (label_weights b) = []"
proof -
  from assms obtain L BT BCT BCW BOT BOW RT where
    fit: "pos_parts_fit h (n_pos r) L BT BCT BCW BOT BOW RT" and
    b: "b = pos_neg_bundle h cfg (n_pos r) (n_neg r) L BT BCT BCW BOT BOW RT"
    unfolding image_block_def by blast
  show "shape (labels b) = (n_pos r + n_neg r) # []"
    and "shape (label_weights b) = (n_pos r + n_neg r) # []"
    and "shape (bbox_targets b) = (n_pos r + n_neg r) # [4]"
    and "shape (bbox_weights b) = (n_pos r + n_neg r) # [4]"
    and "shape (bin_cls_targets b) = (n_pos r + n_neg r) # [4 * num_bins h]"
    and "shape (bin_cls_weights b) = (n_pos r + n_neg r) # [4 * num_bins h]"
    and "shape (bin_offset_targets b) = (n_pos r + n_neg r) # [4]"
    and "shape (bin_offset_weights b) = (n_pos r + n_neg r) # [4]"
    and "shape (ratio_targets b) = (n_pos r + n_neg r) # [1]"
    and "shape (ratio_weights b) = (n_pos r + n_neg r) # [1]"
    by (simp_all add: b pos_neg_bundle_def)
  from fit have l: "length L = n_pos r" by (simp add: pos_parts_fit_def)
  show "shape (labels b) = [0] \<Longrightarrow> data (labels b) = []"
    using l by (simp add: b pos_neg_bundle_def)
  show "shape (label_weights b) = [0] \<Longrightarrow> data (label_weights b) = []"
    by (simp add: b pos_neg_bundle_def)
qed

lemma cat0_blocks:
  assumes ne: "bs \<noteq> []" and len: "length bs = length rs"
    and blk: "\<And>k. k < length rs \<Longrightarrow> image_block K h cfg (rs ! k) (bs ! k)"
    and sh: "\<And>r b. image_block K h cfg r b \<Longrightarrow> shape (f b) = (n_pos r + n_neg r) # cs"
    and em: "\<And>r b. image_block K h cfg r b \<Longrightarrow> shape (f b) = [0] \<Longrightarrow> data (f b) = []"
  shows "cat0 (map f bs) = Inr (rows_in_order (\<Sum>r\<leftarrow>rs. n_pos r + n_neg r) cs (map f bs))"
proof -
  define g where "g b = hd (shape (f b))" for b
  have at: "\<exists>k<length rs. b = bs ! k" if "b \<in> set bs" for b
    using that len by (auto simp: in_set_conv_nth)
  have 1: "shape (f b) = g b # cs" if "b \<in> set bs" for b
  proof -
    from at [OF that] obtain k where k: "k < length rs" and b: "b = bs ! k" by blast
    from sh [OF blk [OF k]] show ?thesis
      unfolding g_def b by simp
  qed
  have 2: "data (f b) = []" if "b \<in> set bs" and "shape (f b) = [0]" for b
  proof -
    from at [OF that(1)] obtain k where k: "k < length rs" and b: "b = bs ! k" by blast
    from em [OF blk [OF k]] that(2) show ?thesis
      unfolding b by blast
  qed
  have "map g bs = map (\<lambda>r. n_pos r + n_neg r) rs"
  proof (rule nth_equalityI)
    show "length (map g bs) = length (map (\<lambda>r. n_pos r + n_neg r) rs)"
      using len by simp
  next
    fix k assume "k < length (map g bs)"
    then have k: "k < length rs" using len by simp
    from sh [OF blk [OF k]] have "g (bs ! k) = n_pos (rs ! k) + n_neg (rs ! k)"
      unfolding g_def by simp
    then show "map g bs ! k = map (\<lambda>r. n_pos r + n_neg r) rs ! k"
      using k len by simp
  qed
  then have 3: "sum_list (map g bs) = (\<Sum>r\<leftarrow>rs. n_pos r + n_neg r)"
    by (simp only:)
  show ?thesis
    by (rule cat0_field [OF ne 1 2 3])
qed

text \<open>
  Claim C3. Whenever \<^verbatim>\<open>get_targets\<close> with \<^verbatim>\<open>concat=True\<close> returns, there is one bundle
  \<open>bs ! k\<close> for each image \<open>rs ! k\<close>, in the order of the images, such that
  \<^item> \<open>bs ! k\<close> is what the per-image routine returns for image \<open>k\<close>, and it consists of
    the rows of the positive samples of that image followed by the rows of its negative
    samples (\<open>image_block\<close>);
  \<^item> each of the ten returned tensors has as many rows as there are samples, the sum over
    the images of \<open>num_pos + num_neg\<close>, and its entries are the entries of the per-image
    tensors one image after the other (\<open>rows_in_order\<close>).
\<close>

theorem get_targets_rows_in_order:
  assumes "get_targets K h rs gt_bbs gt_lbls cfg True = Inr out"
  shows "\<exists>bs. length bs = length rs \<and>
           (\<forall>k<length rs. image_block K h cfg (rs ! k) (bs ! k)) \<and>
           out = Concatenated
             \<lparr>labels = rows_in_order (\<Sum>r\<leftarrow>rs. n_pos r + n_neg r) [] (map labels bs),
              label_weights =
                rows_in_order (\<Sum>r\<leftarrow>rs. n_pos r + n_neg r) [] (map label_weights bs),
              bbox_targets =
                rows_in_order (\<Sum>r\<leftarrow>rs. n_pos r + n_neg r) [4] (map bbox_targets bs),
              bbox_weights =
                rows_in_order (\<Sum>r\<leftarrow>rs. n_pos r + n_neg r) [4] (map bbox_weights bs),
              bin_cls_targets =
                rows_in_order (\<Sum>r\<leftarrow>rs. n_pos r + n_neg r) [4 * num_bins h]
                  (map bin_cls_targets bs),
              bin_cls_weights =
                rows_in_order (\<Sum>r\<leftarrow>rs. n_pos r + n_neg r) [4 * num_bins h]
                  (map bin_cls_weights bs),
              bin_offset_targets =
                rows_in_order (\<Sum>r\<leftarrow>rs. n_pos r + n_neg r) [4] (map bin_offset_targets bs),
              bin_offset_weights =
                rows_in_order (\<Sum>r\<leftarrow>rs. n_pos r + n_neg r) [4] (map bin_offset_weights bs),
              ratio_targets =
                rows_in_order (\<Sum>r\<leftarrow>rs. n_pos r + n_neg r) [1] (map ratio_targets bs),
              ratio_weights =
                rows_in_order (\<Sum>r\<leftarrow>rs. n_pos r + n_neg r) [1] (map ratio_weights bs)\<rparr>"
proof -
  let ?f = "\<lambda>res. get_target_single K h (pos_bboxes res) (neg_bboxes res)
                     (pos_gt_bboxes res) (pos_gt_labels res) cfg"
  from assms obtain bs c1 c2 c3 c4 c5 c6 c7 c8 c9 c10 where
    ma: "multi_apply ?f rs = Inr bs" and ne: "bs \<noteq> []" and
    c1: "cat0 (map labels bs) = Inr c1" and
    c2: "cat0 (map label_weights bs) = Inr c2" and
    c3: "cat0 (map bbox_targets bs) = Inr c3" and
    c4: "cat0 (map bbox_weights bs) = Inr c4" and
    c5: "cat0 (map bin_cls_targets bs) = Inr c5" and
    c6: "cat0 (map bin_cls_weights bs) = Inr c6" and
    c7: "cat0 (map bin_offset_targets bs) = Inr c7" and
    c8: "cat0 (map bin_offset_weights bs) = Inr c8" and
    c9: "cat0 (map ratio_targets bs) = Inr c9" and
    c10: "cat0 (map ratio_weights bs) = Inr c10" and
    out: "out = Concatenated
              \<lparr>labels = c1, label_weights = c2, bbox_targets = c3, bbox_weights = c4,
               bin_cls_targets = c5, bin_cls_weights = c6, bin_offset_targets = c7,
               bin_offset_weights = c8, ratio_targets = c9, ratio_weights = c10\<rparr>"
    by (auto simp: get_targets_def bind_err_Inr split: if_splits)
  from multi_apply_Inr [OF ma] have len: "length bs = length rs"
    and each: "\<forall>k<length rs. ?f (rs ! k) = Inr (bs ! k)" by simp_all
  have blk: "image_block K h cfg (rs ! k) (bs ! k)" if "k < length rs" for k
    using each that by (intro image_block_I) blast
  note cb = cat0_blocks [OF ne len blk]
  have r1: "cat0 (map labels bs) = Inr (rows_in_order (\<Sum>r\<leftarrow>rs. n_pos r + n_neg r) [] (map labels bs))"
    by (rule cb) (simp_all add: image_block_fields)
  have r2: "cat0 (map label_weights bs)
      = Inr (rows_in_order (\<Sum>r\<leftarrow>rs. n_pos r + n_neg r) [] (map label_weights bs))"
    by (rule cb) (simp_all add: image_block_fields)
  have r3: "cat0 (map bbox_targets bs)
      = Inr (rows_in_order (\<Sum>r\<leftarrow>rs. n_pos r + n_neg r) [4] (map bbox_targets bs))"
    by (rule cb) (simp_all add: image_block_fields)
  have r4: "cat0 (map bbox_weights bs)
      = Inr (rows_in_order (\<Sum>r\<leftarrow>rs. n_pos r + n_neg r) [4] (map bbox_weights bs))"
    by (rule cb) (simp_all add: image_block_fields)
  have r5: "cat0 (map bin_cls_targets bs)
      = Inr (rows_in_order (\<Sum>r\<leftarrow>rs. n_pos r + n_neg r) [4 * num_bins h]
               (map bin_cls_targets bs))"
    by (rule cb) (simp_all add: image_block_fields)
  have r6: "cat0 (map bin_cls_weights bs)
      = Inr (rows_in_order (\<Sum>r\<leftarrow>rs. n_pos r + n_neg r) [4 * num_bins h]
               (map bin_cls_weights bs))"
    by (rule cb) (simp_all add: image_block_fields)
  have r7: "cat0 (map bin_offset_targets bs)
      = Inr (rows_in_order (\<Sum>r\<leftarrow>rs. n_pos r + n_neg r) [4] (map bin_offset_targets bs))"
    by (rule cb) (simp_all add: image_block_fields)
  have r8: "cat0 (map bin_offset_weights bs)
      = Inr (rows_in_order (\<Sum>r\<leftarrow>rs. n_pos r + n_neg r) [4] (map bin_offset_weights bs))"
    by (rule cb) (simp_all add: image_block_fields)
  have r9: "cat0 (map ratio_targets bs)
      = Inr (rows_in_order (\<Sum>r\<leftarrow>rs. n_pos r + n_neg r) [1] (map ratio_targets bs))"
    by (rule cb) (simp_all add: image_block_fields)
  have r10: "cat0 (map ratio_weights bs)
      = Inr (rows_in_order (\<Sum>r\<leftarrow>rs. n_pos r + n_neg r) [1] (map ratio_weights bs))"
    by (rule cb) (simp_all add: image_block_fields)
  from c1 c2 c3 c4 c5 c6 c7 c8 c9 c10 r1 r2 r3 r4 r5 r6 r7 r8 r9 r10
  have "out = Concatenated
             \<lparr>labels = rows_in_order (\<Sum>r\<leftarrow>rs. n_pos r + n_neg r) [] (map labels bs),
              label_weights =
                rows_in_order (\<Sum>r\<leftarrow>rs. n_pos r + n_neg r) [] (map label_weights bs),
              bbox_targets =
                rows_in_order (\<Sum>r\<leftarrow>rs. n_pos r + n_neg r) [4] (map bbox_targets bs),
              bbox_weights =
                rows_in_order (\<Sum>r\<leftarrow>rs. n_pos r + n_neg r) [4] (map bbox_weights bs),
              bin_cls_targets =
                rows_in_order (\<Sum>r\<leftarrow>rs. n_pos r + n_neg r) [4 * num_bins h]
                  (map bin_cls_targets bs),
              bin_cls_weights =
                rows_in_order (\<Sum>r\<leftarrow>rs. n_pos r + n_neg r) [4 * num_bins h]
                  (map bin_cls_weights bs),
              bin_offset_targets =
                rows_in_order (\<Sum>r\<leftarrow>rs. n_pos r + n_neg r) [4] (map bin_offset_targets bs),
              bin_offset_weights =
                rows_in_order (\<Sum>r\<leftarrow>rs. n_pos r + n_neg r) [4] (map bin_offset_weights bs),
              ratio_targets =
                rows_in_order (\<Sum>r\<leftarrow>rs. n_pos r + n_neg r) [1] (map ratio_targets bs),
              ratio_weights =
                rows_in_order (\<Sum>r\<leftarrow>rs. n_pos r + n_neg r) [1] (map ratio_weights bs)\<rparr>"
    unfolding out by simp
  with len blk show ?thesis by blast
qed

lemma sample_batch:
  "get_targets sample_core sample_head [sample_image_1, sample_image_2] () ()
       \<lparr>pos_weight = - 1\<rparr> True
     = Inr (Concatenated
         \<lparr>labels = \<lparr>shape = [4], data = [3, 15, 15, 15]\<rparr>,
          label_weights = \<lparr>shape = [4], data = [1, 1, 1, 1]\<rparr>,
          bbox_targets = \<lparr>shape = [4, 4], data = [1, 1, 9, 9] @ replicate 12 0\<rparr>,
          bbox_weights = \<lparr>shape = [4, 4], data = [1, 1, 1, 1] @ replicate 12 0\<rparr>,
          bin_cls_targets = \<lparr>shape = [4, 16], data = replicate 64 0\<rparr>,
          bin_cls_weights = \<lparr>shape = [4, 16], data = replicate 16 1 @ replicate 48 0\<rparr>,
          bin_offset_targets = \<lparr>shape = [4, 4], data = replicate 16 0\<rparr>,
          bin_offset_weights = \<lparr>shape = [4, 4], data = replicate 4 1 @ replicate 12 0\<rparr>,
          ratio_targets = \<lparr>shape = [4, 1], data = [1, 0, 0, 0]\<rparr>,
          ratio_weights = \<lparr>shape = [4, 1], data = [1, 0, 0, 0]\<rparr>\<rparr>)"
  by code_simp

theorem get_targets_rows_in_order_witness:
  "get_targets sample_core sample_head [sample_image_1, sample_image_2] () ()
       \<lparr>pos_weight = - 1\<rparr> True
     = Inr (Concatenated
         \<lparr>labels = \<lparr>shape = [4], data = [3, 15, 15, 15]\<rparr>,
          label_weights = \<lparr>shape = [4], data = [1, 1, 1, 1]\<rparr>,
          bbox_targets = \<lparr>shape = [4, 4], data = [1, 1, 9, 9] @ replicate 12 0\<rparr>,
          bbox_weights = \<lparr>shape = [4, 4], data = [1, 1, 1, 1] @ replicate 12 0\<rparr>,
          bin_cls_targets = \<lparr>shape = [4, 16], data = replicate 64 0\<rparr>,
          bin_cls_weights = \<lparr>shape = [4, 16], data = replicate 16 1 @ replicate 48 0\<rparr>,
          bin_offset_targets = \<lparr>shape = [4, 4], data = replicate 16 0\<rparr>,
          bin_offset_weights = \<lparr>shape = [4, 4], data = replicate 4 1 @ replicate 12 0\<rparr>,
          ratio_targets = \<lparr>shape = [4, 1], data = [1, 0, 0, 0]\<rparr>,
          ratio_weights = \<lparr>shape = [4, 1], data = [1, 0, 0, 0]\<rparr>\<rparr>) \<and>
   (\<Sum>r\<leftarrow>[sample_image_1, sample_image_2]. n_pos r + n_neg r) = 4"
proof -
  have n: "(\<Sum>r\<leftarrow>[sample_image_1, sample_image_2]. n_pos r + n_neg r) = 4"
    by (simp add: n_pos_def n_neg_def sample_image_1_def sample_image_2_def)
  from get_targets_rows_in_order [OF sample_batch] sample_batch n
  show ?thesis by blast
qed

section \<open>Properties of the affine warp\<close>

text \<open>
  With a zero weight every product is a zero or, for a non-finite feature, non-finite;
  so the inner product is zero exactly when the features of the sample are all finite.
\<close>

lemma foldl_add_NonFin: "foldl (fl_add rnd) NonFin ys = NonFin"
  by (induction ys) simp_all

lemma dot_zero_weights:
  assumes "rnd 0 = Fin 0"
  shows "foldl (fl_add rnd) (Fin 0) (map2 (fl_mul rnd) xs (replicate k (Fin 0)))
           = (if list_all is_fin (take k xs) then Fin 0 else NonFin)"
proof (induction xs arbitrary: k)
  case Nil
  then show ?case by simp
next
  case (Cons x xs)
  show ?case
  proof (cases k)
    case 0
    then show ?thesis by simp
  next
    case (Suc m)
    show ?thesis
    proof (cases x)
      case (Fin a)
      then show ?thesis using Cons [of m] Suc assms by simp
    next
      case NonFin
      then show ?thesis using Suc by (simp add: foldl_add_NonFin)
    qed
  qed
qed

lemma row_zero_weight:
  assumes "j < m"
  shows "row \<lparr>shape = [m, k], data = replicate (m * k) (Fin 0)\<rparr> j = replicate k (Fin 0)"
proof -
  from assms have "\<exists>e. m = j + Suc e" by presburger
  then obtain e where m: "m = j + Suc e" by blast
  have "drop (j * k) (replicate (m * k) (Fin 0)) = replicate (Suc e * k) (Fin 0)"
    by (simp add: m add_mult_distrib)
  then show ?thesis by (simp add: row_def row_len_def)
qed

lemma fl_add_bias:
  assumes "rnd 0 = Fin 0" and "rnd 1 = Fin 1"
  shows "map (\<lambda>j. fl_add rnd (if c then Fin 0 else NonFin) (identity_theta ! j)) [0..<6]
           = (if c then identity_theta else replicate 6 NonFin)"
proof -
  have u: "[0..<6] = [0, 1, 2, 3, 4, 5]" by (simp add: upt_rec)
  show ?thesis using assms by (simp add: u identity_theta_def numeral_eq_Suc)
qed

lemma linear_zero_weight:
  assumes r0: "rnd 0 = Fin 0" and r1: "rnd 1 = Fin 1"
    and sh: "shape feats = [n, k]"
  shows "linear_apply rnd
           \<lparr>lin_weight = \<lparr>shape = [6, k], data = replicate (6 * k) (Fin 0)\<rparr>,
            lin_bias = \<lparr>shape = [6], data = identity_theta\<rparr>\<rparr> feats
         = Inr \<lparr>shape = [n, 6],
                data = concat (map (\<lambda>i. if list_all is_fin (row feats i) then identity_theta
                                         else replicate 6 NonFin) [0..<n])\<rparr>"
proof -
  let ?W = "\<lparr>shape = [6, k], data = replicate (6 * k) (Fin 0)\<rparr> :: fl tensor"
  have rw: "row feats i = take k (drop (i * k) (data feats))" for i
    by (simp add: row_def row_len_def sh)
  have inner: "dot rnd (take k (drop (i * k) (data feats))) (row ?W j)
                 = (if list_all is_fin (row feats i) then Fin 0 else NonFin)"
    if "j < 6" for i j
    using dot_zero_weights [where rnd = rnd and xs = "take k (drop (i * k) (data feats))" and k = k]
      r0 that
    by (simp add: dot_def row_zero_weight rw)
  have one: "map (\<lambda>j. fl_add rnd (dot rnd (take k (drop (i * k) (data feats))) (row ?W j))
                                  (identity_theta ! j)) [0..<6]
               = (if list_all is_fin (row feats i) then identity_theta else replicate 6 NonFin)"
    for i
  proof -
    have "map (\<lambda>j. fl_add rnd (dot rnd (take k (drop (i * k) (data feats))) (row ?W j))
                               (identity_theta ! j)) [0..<6]
            = map (\<lambda>j. fl_add rnd (if list_all is_fin (row feats i) then Fin 0 else NonFin)
                                   (identity_theta ! j)) [0..<6]"
      by (rule map_cong [OF refl]) (simp add: inner)
    then show ?thesis by (simp only: fl_add_bias [OF r0 r1])
  qed
  show ?thesis
    by (simp add: linear_apply_def sh one)
qed

lemma affine_trans_value:
  assumes r0: "rnd 0 = Fin 0" and r1: "rnd 1 = Fin 1"
    and sh: "shape feats = [n, in_channels h * roi_feat_area h]"
  shows "affine_trans rnd h s w0 b0 feats
         = (Inr \<lparr>shape = [n, 6],
                 data = concat (map (\<lambda>i. if list_all is_fin (row feats i) then identity_theta
                                          else replicate 6 NonFin) [0..<n])\<rparr>,
            s\<lparr>fc_theta := Some
                 \<lparr>lin_weight = \<lparr>shape = [6, in_channels h * roi_feat_area h],
                                 data = replicate (6 * (in_channels h * roi_feat_area h)) (Fin 0)\<rparr>,
                  lin_bias = \<lparr>shape = [6], data = identity_theta\<rparr>\<rparr>\<rparr>)"
proof -
  have z: "map ((\<lambda>v. Fin 0) \<circ> w0) [0..<6 * k] = replicate (6 * k) (Fin 0)" for k
    by (simp add: map_replicate_const comp_def)
  have c: "copy_from \<lparr>shape = [6], data = map b0 [0..<6]\<rparr> [Fin 1, Fin 0, Fin 0, Fin 0, Fin 1, Fin 0]
             = Inr \<lparr>shape = [6], data = identity_theta\<rparr>"
    by (simp add: copy_from_def numel_def identity_theta_def)
  show ?thesis
    by (simp add: affine_trans_def new_linear_def zero_tensor_def z c Let_def
        linear_zero_weight [OF r0 r1 sh])
qed

lemma forward_theta_value:
  assumes r0: "rnd 0 = Fin 0" and r1: "rnd 1 = Fin 1"
    and sh: "shape x = n # c # rest"
    and k: "prod_list (c # rest) = in_channels h * roi_feat_area h"
  shows "forward_theta rnd h s w0 b0 x
         = (Inr (theta_of x),
            s\<lparr>fc_theta := Some
                 \<lparr>lin_weight = \<lparr>shape = [6, in_channels h * roi_feat_area h],
                                 data = replicate (6 * (in_channels h * roi_feat_area h)) (Fin 0)\<rparr>,
                  lin_bias = \<lparr>shape = [6], data = identity_theta\<rparr>\<rparr>\<rparr>)"
proof -
  let ?feats = "\<lparr>shape = [n, prod_list (c # rest)], data = data x\<rparr>"
  have f: "flatten1 x = Inr ?feats" by (simp add: flatten1_def sh)
  have fs: "shape ?feats = [n, in_channels h * roi_feat_area h]" using k by simp
  have rw: "row ?feats i = row x i" for i by (simp add: row_def row_len_def sh)
  have a: "affine_trans rnd h s w0 b0 ?feats
             = (Inr \<lparr>shape = [n, 6],
                     data = concat (map (\<lambda>i. if list_all is_fin (row x i) then identity_theta
                                              else replicate 6 NonFin) [0..<n])\<rparr>,
                s\<lparr>fc_theta := Some
                     \<lparr>lin_weight = \<lparr>shape = [6, in_channels h * roi_feat_area h],
                                     data = replicate (6 * (in_channels h * roi_feat_area h)) (Fin 0)\<rparr>,
                      lin_bias = \<lparr>shape = [6], data = identity_theta\<rparr>\<rparr>\<rparr>)"
    using affine_trans_value [OF r0 r1 fs, of s w0 b0] by (simp only: rw)
  have "forward_theta rnd h s w0 b0 x
          = (case affine_trans rnd h s w0 b0 ?feats of (r, s') \<Rightarrow>
               (bind_err r (\<lambda>theta. view_shape theta [numel theta div 6, 2, 3]), s'))"
    by (simp only: forward_theta_def f sum.case)
  also have "\<dots> = (Inr (theta_of x),
            s\<lparr>fc_theta := Some
                 \<lparr>lin_weight = \<lparr>shape = [6, in_channels h * roi_feat_area h],
                                 data = replicate (6 * (in_channels h * roi_feat_area h)) (Fin 0)\<rparr>,
                  lin_bias = \<lparr>shape = [6], data = identity_theta\<rparr>\<rparr>\<rparr>)"
    unfolding a by (simp add: theta_of_def sh view_shape_def numel_def)
  finally show ?thesis .
qed

text \<open>
  Claim C9. On every call of \<^verbatim>\<open>forward\<close> the affine regressor is created anew, with zero
  weight and the bias \<open>[1, 0, 0, 0, 1, 0]\<close>. So, whatever \<^verbatim>\<open>self.fc_theta\<close> held before the
  call (\<open>s\<close>) and whatever initial values the new layer draws (\<open>w0\<close>, \<open>b0\<close>): the matrix of
  every sample whose features are all finite is the identity transform, the regressor left
  in \<^verbatim>\<open>self.fc_theta\<close> is the layer with zero weight and identity bias, and the warped
  features are what \<^verbatim>\<open>affine_grid\<close> and \<^verbatim>\<open>grid_sample\<close> make of these matrices and of the
  input alone. A sample with a non-finite feature does not get the identity: the entries
  of its matrix are non-finite (\<open>0 * inf\<close> is NaN). The input is a batch of feature maps of
  the size the head was built for, in a number format that represents 0 and 1.
\<close>

theorem forward_theta_identity_on_finite_features:
  assumes "rnd 0 = Fin 0" and "rnd 1 = Fin 1"
    and "shape x = n # c # rest"
    and "prod_list (c # rest) = in_channels h * roi_feat_area h"
  shows "fst (forward_theta rnd h s w0 b0 x) = Inr (theta_of x) \<and>
         fc_theta (snd (forward_theta rnd h s w0 b0 x))
           = Some \<lparr>lin_weight = new_full [6, in_channels h * roi_feat_area h] (Fin 0),
                   lin_bias = \<lparr>shape = [6], data = identity_theta\<rparr>\<rparr> \<and>
         fst (forward_x_affine K rnd h s w0 b0 x)
           = bind_err (affine_grid K (theta_of x) (shape x)) (grid_sample K x)"
  by (simp add: forward_x_affine_def forward_theta_value [OF assms] new_full_def)

text \<open>
  A call after training has changed an earlier regressor, on finite features: both
  matrices are the identity and the regressor is the zero-weight layer again.
\<close>

lemma theta_of_finite_features:
  "theta_of finite_features
     = \<lparr>shape = [2, 2, 3],
        data = [Fin 1, Fin 0, Fin 0, Fin 0, Fin 1, Fin 0,
                Fin 1, Fin 0, Fin 0, Fin 0, Fin 1, Fin 0]\<rparr>"
  by code_simp

theorem forward_theta_identity_on_finite_features_witness:
  "sample_rounding 0 = Fin 0 \<and> sample_rounding 1 = Fin 1 \<and>
   shape finite_features = [2, 2, 2, 2] \<and>
   prod_list [2, 2, 2] = in_channels warp_head * roi_feat_area warp_head \<and>
   fst (forward_theta sample_rounding warp_head trained_state (\<lambda>i. Fin 7) (\<lambda>j. Fin 5)
          finite_features)
     = Inr \<lparr>shape = [2, 2, 3],
            data = [Fin 1, Fin 0, Fin 0, Fin 0, Fin 1, Fin 0,
                    Fin 1, Fin 0, Fin 0, Fin 0, Fin 1, Fin 0]\<rparr> \<and>
   fc_theta (snd (forward_theta sample_rounding warp_head trained_state (\<lambda>i. Fin 7) (\<lambda>j. Fin 5)
                    finite_features))
     = Some \<lparr>lin_weight = new_full [6, in_channels warp_head * roi_feat_area warp_head] (Fin 0),
             lin_bias = \<lparr>shape = [6], data = identity_theta\<rparr>\<rparr>"
proof -
  have r0: "sample_rounding 0 = Fin 0" and r1: "sample_rounding 1 = Fin 1"
    by (simp_all add: sample_rounding_def)
  have sh: "shape finite_features = [2, 2, 2, 2]"
    by (simp add: finite_features_def)
  have k: "prod_list [2, 2, 2] = in_channels warp_head * roi_feat_area warp_head"
    by (simp add: warp_head_def)
  from forward_theta_identity_on_finite_features [OF r0 r1 sh k,
      where s = trained_state and ?w0.0 = "\<lambda>i. Fin 7" and ?b0.0 = "\<lambda>j. Fin 5" and K = sample_core]
  have "fst (forward_theta sample_rounding warp_head trained_state (\<lambda>i. Fin 7) (\<lambda>j. Fin 5)
               finite_features) = Inr (theta_of finite_features)"
    and "fc_theta (snd (forward_theta sample_rounding warp_head trained_state (\<lambda>i. Fin 7)
                          (\<lambda>j. Fin 5) finite_features))
           = Some \<lparr>lin_weight = new_full [6, in_channels warp_head * roi_feat_area warp_head] (Fin 0),
                   lin_bias = \<lparr>shape = [6], data = identity_theta\<rparr>\<rparr>"
    by blast+
  with r0 r1 sh k show ?thesis by (simp only: theta_of_finite_features simp_thms)
qed

text \<open>
  The same call on features of which one has overflowed: the matrix of the second sample
  is not the identity.
\<close>

theorem forward_theta_overflowed_features:
  "fst (forward_theta sample_rounding warp_head trained_state (\<lambda>i. Fin 7) (\<lambda>j. Fin 5)
          overflowed_features)
     = Inr \<lparr>shape = [2, 2, 3],
            data = [Fin 1, Fin 0, Fin 0, Fin 0, Fin 1, Fin 0,
                    NonFin, NonFin, NonFin, NonFin, NonFin, NonFin]\<rparr>"
  by code_simp

end
